theory Spec2Isabelle
  imports Main "HOL-Library.FSet"
begin

unbundle bit_operations_syntax

section \<open>Python strings\<close>

text \<open>
  A Python \<open>str\<close> is a sequence of Unicode code points. A code point is a natural
  number and a string is a list of them, so that slicing, \<open>len\<close>, \<open>ord\<close> and \<open>chr\<close>
  count what Python counts. \<open>S\<close> turns an ASCII literal into such a string; the
  apostrophe is written as its code point 39.
\<close>

type_synonym pystr = "nat list"

definition S :: "string \<Rightarrow> pystr" where
  "S s = map of_char s"

text \<open>\<open>s.startswith(p)\<close>, \<open>s.find(p)\<close> and \<open>p in s\<close>.\<close>

definition startswith :: "pystr \<Rightarrow> pystr \<Rightarrow> bool" where
  "startswith s p = (take (length p) s = p)"

fun py_find :: "pystr \<Rightarrow> pystr \<Rightarrow> nat option" where
  "py_find [] p = (if p = [] then Some 0 else None)"
| "py_find (x # xs) p =
     (if startswith (x # xs) p then Some 0 else map_option Suc (py_find xs p))"

definition contains :: "pystr \<Rightarrow> pystr \<Rightarrow> bool" where
  "contains s p = (py_find s p \<noteq> None)"

text \<open>
  \<open>s.split(sep)\<close> for a separator that is not empty (the source only splits at the
  constants \<open>://\<close> and \<open>/\<close>; Python raises ValueError for an empty one, which is
  kept out of the recursion by the first test). The recursion ends because an
  occurrence found at index \<open>i\<close> lies within the string.
\<close>

lemma startswith_length: "startswith s p \<Longrightarrow> length p \<le> length s"
proof -
  assume "startswith s p"
  then have "take (length p) s = p" by (simp only: startswith_def)
  then have "length (take (length p) s) = length p" by (rule arg_cong)
  then show ?thesis by (simp only: length_take min_def split: if_splits)
qed

lemma py_find_bound: "py_find t sep = Some j \<Longrightarrow> j + length sep \<le> length t"
proof (induction t arbitrary: j)
  case Nil
  then show ?case by (simp split: if_splits)
next
  case (Cons x xs)
  show ?case
  proof (cases "startswith (x # xs) sep")
    case True
    then have "length sep \<le> length (x # xs)" by (rule startswith_length)
    moreover from True Cons.prems have "j = 0"
      by simp
    ultimately show ?thesis by simp
  next
    case False
    with Cons.prems obtain k where "py_find xs sep = Some k" and "j = Suc k"
      by auto
    with Cons.IH [of k] show ?thesis by simp
  qed
qed

function py_split :: "pystr \<Rightarrow> pystr \<Rightarrow> pystr list" where
  "py_split s sep =
     (if sep = [] then [s]
      else case py_find s sep of
             None \<Rightarrow> [s]
           | Some i \<Rightarrow> take i s # py_split (drop (i + length sep) s) sep)"
  by pat_completeness auto
termination
proof (relation "measure (\<lambda>(s, sep). length s)")
  show "wf (measure (\<lambda>(s, sep). length s))" by simp
next
  fix s sep :: pystr and i :: nat
  assume ne: "sep \<noteq> []" and found: "py_find s sep = Some i"
  from ne have "0 < length sep" by simp
  with py_find_bound [OF found] have "length s - (i + length sep) < length s"
    by linarith
  then show "((drop (i + length sep) s, sep), (s, sep)) \<in> measure (\<lambda>(s, sep). length s)"
    by simp
qed

declare py_split.simps [simp del]

text \<open>\<open>s.rsplit(c, 1)\<close> for a one-character separator: split at the last occurrence.\<close>

definition rsplit1 :: "pystr \<Rightarrow> nat \<Rightarrow> pystr list" where
  "rsplit1 s c =
     (if c \<in> set s
      then [rev (tl (dropWhile (\<lambda>x. x \<noteq> c) (rev s))), rev (takeWhile (\<lambda>x. x \<noteq> c) (rev s))]
      else [s])"

text \<open>\<open>s.replace(p, r, 1)\<close>: the first occurrence only.\<close>

definition replace_first :: "pystr \<Rightarrow> pystr \<Rightarrow> pystr \<Rightarrow> pystr" where
  "replace_first s p r =
     (case py_find s p of None \<Rightarrow> s | Some i \<Rightarrow> take i s @ r @ drop (i + length p) s)"

text \<open>\<open>s.replace(c, '')\<close> for a one-character \<open>c\<close>: every occurrence is removed.\<close>

definition remove_all :: "pystr \<Rightarrow> nat \<Rightarrow> pystr" where
  "remove_all s c = filter (\<lambda>x. x \<noteq> c) s"

text \<open>\<open>s.lstrip(chars)\<close>, \<open>s.rstrip(chars)\<close> and \<open>s.strip()\<close> (whitespace).\<close>

definition lstrip :: "pystr \<Rightarrow> pystr \<Rightarrow> pystr" where
  "lstrip s chars = dropWhile (\<lambda>c. c \<in> set chars) s"

definition rstrip :: "pystr \<Rightarrow> pystr \<Rightarrow> pystr" where
  "rstrip s chars = rev (dropWhile (\<lambda>c. c \<in> set chars) (rev s))"

definition isspace :: "nat \<Rightarrow> bool" where
  "isspace c =
     (c \<in> {9, 10, 11, 12, 13, 28, 29, 30, 31, 32, 133, 160, 5760,
            8232, 8233, 8239, 8287, 12288} \<or> (8192 \<le> c \<and> c \<le> 8202))"

definition strip :: "pystr \<Rightarrow> pystr" where
  "strip s = rev (dropWhile isspace (rev (dropWhile isspace s)))"

text \<open>\<open>str(n)\<close> for a position \<open>n\<close>, as the f-strings of the detail texts print it.\<close>

fun str_nat :: "nat \<Rightarrow> pystr" where
  "str_nat n = (if n < 10 then [48 + n] else str_nat (n div 10) @ [48 + n mod 10])"

declare str_nat.simps [simp del]

text \<open>\<open>name[:i] + r + name[i+1:]\<close>, the substitution most techniques perform.\<close>

definition subst_at :: "pystr \<Rightarrow> nat \<Rightarrow> pystr \<Rightarrow> pystr" where
  "subst_at s i r = take i s @ r @ drop (Suc i) s"

text \<open>Comparison of two strings with \<open><\<close>: lexicographic on code points.\<close>

fun str_less :: "pystr \<Rightarrow> pystr \<Rightarrow> bool" where
  "str_less [] [] = False"
| "str_less [] (y # ys) = True"
| "str_less (x # xs) [] = False"
| "str_less (x # xs) (y # ys) = (x < y \<or> (x = y \<and> str_less xs ys))"

section \<open>Values that come from outside the program\<close>

text \<open>
  \<open>datetime\<close> objects are instants counted in microseconds. A naive one (no time zone,
  as \<open>datetime.now()\<close> and \<open>strptime\<close> return) can be subtracted from a naive one
  only; subtracting an aware one from \<open>datetime.now()\<close> raises TypeError.
\<close>

datatype datetime = Naive int | Aware int

text \<open>The values a WHOIS record can hold in its fields.\<close>

datatype pyval =
    PyNone
  | PyDatetime datetime
  | PyStr pystr
  | PyInt int
  | PyList "pyval list"

fun truthy :: "pyval \<Rightarrow> bool" where
  "truthy PyNone = False"
| "truthy (PyDatetime d) = True"
| "truthy (PyStr s) = (s \<noteq> [])"
| "truthy (PyInt n) = (n \<noteq> 0)"
| "truthy (PyList l) = (l \<noteq> [])"

fun is_datetime :: "pyval \<Rightarrow> bool" where
  "is_datetime (PyDatetime d) = True"
| "is_datetime v = False"

text \<open>
  What \<open>dns_resolver.resolve(domain, record_type)\<close> does: it returns answers or raises
  one of the exceptions \<open>check_dns\<close> names, or another one. Likewise
  \<open>socket.gethostbyname\<close> and \<open>whois.whois\<close>.
\<close>

datatype dns_outcome =
    Answers "pystr list"
  | NXDOMAIN
  | NoAnswer
  | NoNameservers
  | Timeout
  | DnsException pystr

datatype socket_outcome = Resolved pystr | gaierror | SocketException pystr

record whois_entry =
  entry_items :: "(pystr \<times> pyval) list"
  entry_creation_date :: pyval
  entry_registrar :: pyval

datatype whois_outcome = WhoisEntry whois_entry | WhoisException pystr

text \<open>The calls that leave the process, in the order they are made.\<close>

datatype call = DnsQuery pystr pystr | HostLookup pystr | WhoisQuery pystr

text \<open>
  The libraries and services the module imports, and the clock. An optional library
  that is not installed (\<open>TLDEXTRACT_AVAILABLE\<close>, \<open>CONFUSABLES_AVAILABLE\<close>,
  \<open>DNS_AVAILABLE\<close>, \<open>WHOIS_AVAILABLE\<close> false) is \<open>None\<close>.
  \<^item> \<open>unicode_lower\<close> is \<open>str.lower\<close> on strings that hold a non-ASCII code point and
    \<open>unicode_isalpha\<close> is \<open>str.isalpha\<close> on non-ASCII code points (the Unicode tables
    of the interpreter); on ASCII both are written out below.
  \<^item> \<open>tldextract\<close> returns the \<open>domain\<close> and \<open>suffix\<close> of \<open>tldextract.extract\<close>.
  \<^item> \<open>is_confusable\<close> is \<open>confusables.is_confusable(char, greedy=True)\<close>: for each
    item of the answer the \<open>c\<close> strings of its homoglyphs (\<open>[]\<close> for a false answer),
    or \<open>None\<close> when the call raises.
  \<^item> \<open>strptime_ymd\<close> is \<open>datetime.strptime(s, '%Y-%m-%d')\<close>, \<open>None\<close> when it raises;
    \<open>py_str\<close> is \<open>str\<close> on a WHOIS value; \<open>now\<close> is \<open>datetime.now()\<close>.
\<close>

record runtime =
  unicode_lower :: "pystr \<Rightarrow> pystr"
  unicode_isalpha :: "nat \<Rightarrow> bool"
  tldextract :: "(pystr \<Rightarrow> pystr \<times> pystr) option"
  is_confusable :: "(pystr \<Rightarrow> pystr list list option) option"
  dns_resolver :: "(pystr \<Rightarrow> pystr \<Rightarrow> dns_outcome) option"
  gethostbyname :: "pystr \<Rightarrow> socket_outcome"
  whois_whois :: "(pystr \<Rightarrow> whois_outcome) option"
  strptime_ymd :: "pystr \<Rightarrow> int option"
  py_str :: "pyval \<Rightarrow> pystr"
  now :: int

text \<open>\<open>s.lower()\<close> and \<open>c.isalpha()\<close>.\<close>

definition ascii_lower :: "nat \<Rightarrow> nat" where
  "ascii_lower c = (if 65 \<le> c \<and> c \<le> 90 then c + 32 else c)"

definition lower :: "runtime \<Rightarrow> pystr \<Rightarrow> pystr" where
  "lower rt s =
     (if list_all (\<lambda>c. c < 128) s then map ascii_lower s else unicode_lower rt s)"

definition isalpha :: "runtime \<Rightarrow> nat \<Rightarrow> bool" where
  "isalpha rt c =
     (if c < 128 then (65 \<le> c \<and> c \<le> 90) \<or> (97 \<le> c \<and> c \<le> 122)
      else unicode_isalpha rt c)"

section \<open>Data classes\<close>

record DomainVariant =
  original_domain :: pystr
  variant_domain :: pystr
  technique :: pystr
  technique_detail :: pystr
  is_registered :: bool
  dns_records :: "(pystr \<times> pystr list) list"
  whois_data :: "(pystr \<times> pystr) list"
  creation_date :: pyval
  registrar :: pyval
  domain_age_days :: "int option"
  trust_level :: pystr
  risk_score :: int
  error :: "pystr option"

text \<open>
  The constructor call \<open>DomainVariant(original_domain=..., variant_domain=...,
  technique=..., technique_detail=...)\<close>: every other field takes its default.
\<close>

definition new_DomainVariant :: "pystr \<Rightarrow> pystr \<Rightarrow> pystr \<Rightarrow> pystr \<Rightarrow> DomainVariant" where
  "new_DomainVariant orig full tech detail =
     \<lparr>original_domain = orig, variant_domain = full, technique = tech,
      technique_detail = detail, is_registered = False, dns_records = [],
      whois_data = [], creation_date = PyNone, registrar = PyNone,
      domain_age_days = None, trust_level = S ''unknown'', risk_score = 0,
      error = None\<rparr>"

record AnalysisConfig =
  target_domain :: pystr
  trust_threshold_days :: int
  max_variants :: int
  check_dns :: bool
  check_whois :: bool
  threads :: int
  timeout :: int
  include_unregistered :: bool
  techniques :: "pystr list"
  output_format :: pystr
  output_file :: "pystr option"
  verbose :: bool

text \<open>\<open>AnalysisConfig(target_domain=...)\<close>: every other field takes its default.\<close>

definition new_AnalysisConfig :: "pystr \<Rightarrow> AnalysisConfig" where
  "new_AnalysisConfig target =
     \<lparr>target_domain = target, trust_threshold_days = 730, max_variants = 1000,
      check_dns = True, check_whois = True, threads = 10, timeout = 5,
      include_unregistered = False, techniques = [S ''all''],
      output_format = S ''console'', output_file = None, verbose = False\<rparr>"

section \<open>Character mapping tables\<close>

text \<open>
  The dictionaries and lists of the module, in source order; a dictionary is an
  association list, looked up with \<open>map_of\<close>. Non-ASCII entries are written as code
  points.
\<close>

definition HOMOGRAPH_MAPPINGS :: "(pystr \<times> pystr list) list" where
  "HOMOGRAPH_MAPPINGS = [
    (S ''a'', [[1072], [593], [945], [7841], [261], [224], [225], [226], [227], [228],
        [229], [257], [259], [462], [513], [515], [7843], [7845], [7847], [7849],
        [7851], [7853], [7855], [7857], [7859], [7861], [7863]]),
    (S ''b'', [[1068], [389], [1280], [7683], [7685], [7687], [384]]),
    (S ''c'', [[1089], [1010], [267], [231], [263], [265], [269], [392], [572]]),
    (S ''d'', [[1281], [599], [7691], [7693], [7695], [7697], [7699], [271], [273]]),
    (S ''e'', [[1077], [1105], [7865], [281], [232], [233], [234], [235], [275], [277],
        [279], [283], [517], [519], [7867], [7869], [7871], [7873], [7875], [7877],
        [7879]]),
    (S ''f'', [[402], [7711]]),
    (S ''g'', [[609], [289], [291], [285], [287], [487], [501], [7713]]),
    (S ''h'', [[1211], [7715], [7717], [7719], [7721], [7723], [293], [543], [295]]),
    (S ''i'', [[1110], [305], [617], [236], [237], [238], [239], [297], [299], [301],
        [303], [464], [521], [523], [7881], [7883]]),
    (S ''j'', [[1112], [309], [496]]),
    (S ''k'', [[954], [7729], [7731], [7733], [311], [312]]),
    (S ''l'', [[1231], [7735], [7737], [7739], [7741], [314], [316], [318], [320], [322],
        S ''1'', [124]]),
    (S ''m'', [[7745], [7747], [625], S ''rn'']),
    (S ''n'', [[1400], [7749], [7751], [7753], [7755], [324], [326], [328], [329], [626],
        [414]]),
    (S ''o'', [[1086], [959], [963], S ''0'', [7885], [248], [242], [243], [244], [245],
        [246], [333], [335], [337], [417], [466], [491], [493], [525], [527],
        [559], [561], [7887], [7889], [7891], [7893], [7895], [7897], [7899], [7901],
        [7903], [7905], [7907]]),
    (S ''p'', [[1088], [961], [7765], [7767], [421]]),
    (S ''q'', [[1307], [587]]),
    (S ''r'', [[1075], [7769], [7771], [7773], [7775], [341], [343], [345], [529], [531]]),
    (S ''s'', [[1109], [7777], [7779], [7781], [7783], [7785], [347], [349], [351], [353],
        [537], S ''5'', [36]]),
    (S ''t'', [[964], [7787], [7789], [7791], [7793], [355], [357], [359], [539], S ''7'']),
    (S ''u'', [[965], [1405], [7909], [249], [250], [251], [252], [361], [363], [365],
        [367], [369], [371], [432], [468], [470], [472], [474], [476], [533],
        [535], [7911], [7913], [7915], [7917], [7919], [7921]]),
    (S ''v'', [[957], [1141], [7805], [7807]]),
    (S ''w'', [[1309], [7809], [7811], [7813], [7815], [7817], [373], S ''vv'']),
    (S ''x'', [[1093], [967], [7819], [7821]]),
    (S ''y'', [[1091], [947], [7923], [253], [375], [255], [7929], [563], [7823], [7925],
        [7927]]),
    (S ''z'', [[7458], [378], [380], [382], [7825], [7827], [7829], [438]]),
    (S ''A'', [[1040], [913], [7840], [260], [192], [193], [194], [195], [196], [197],
        [256], [258], [461]]),
    (S ''B'', [[1042], [914], [7682], [7684], [7686], [385]]),
    (S ''C'', [[1057], [1017], [266], [199], [262], [264], [268]]),
    (S ''E'', [[1045], [917], [7864], [280], [200], [201], [202], [203], [274], [276],
        [278], [282]]),
    (S ''H'', [[1053], [919], [7714], [7716], [7718], [7720], [7722], [292]]),
    (S ''I'', [[1030], [921], [204], [205], [206], [207], [296], [298], [300], [304],
        [302], S ''1'', S ''l'', [124]]),
    (S ''K'', [[922], [1050], [7728], [7730], [7732], [310]]),
    (S ''M'', [[924], [1052], [7744], [7746]]),
    (S ''N'', [[925], [7748], [7750], [7752], [7754], [323], [325], [327]]),
    (S ''O'', [[1054], [927], S ''0'', [7884], [216], [210], [211], [212], [213], [214],
        [332], [334], [336], [416]]),
    (S ''P'', [[1056], [929], [7764], [7766]]),
    (S ''S'', [[1029], [7776], [7778], [7780], [7782], [7784], [346], [348], [350], [352],
        S ''5'', [36]]),
    (S ''T'', [[932], [1058], [7786], [7788], [7790], [7792], [354], [356], [358], S ''7'']),
    (S ''X'', [[935], [1061], [7818], [7820]]),
    (S ''Y'', [[933], [1059], [7922], [221], [374], [376], [7928], [562], [7822]]),
    (S ''Z'', [[918], [377], [379], [381], [7824], [7826], [7828]])]"

definition LEETSPEAK_MAPPINGS :: "(pystr \<times> pystr list) list" where
  "LEETSPEAK_MAPPINGS = [
    (S ''a'', [S ''4'', [64]]),
    (S ''b'', [S ''8'']),
    (S ''e'', [S ''3'']),
    (S ''g'', [S ''9'', S ''6'']),
    (S ''i'', [S ''1'', [33], [124]]),
    (S ''l'', [S ''1'', [124]]),
    (S ''o'', [S ''0'']),
    (S ''s'', [S ''5'', [36]]),
    (S ''t'', [S ''7'', [43]]),
    (S ''z'', [S ''2''])]"

definition KEYBOARD_TYPOS :: "(pystr \<times> pystr list) list" where
  "KEYBOARD_TYPOS = [
    (S ''a'', [S ''q'', S ''w'', S ''s'', S ''z'']),
    (S ''b'', [S ''v'', S ''g'', S ''h'', S ''n'']),
    (S ''c'', [S ''x'', S ''d'', S ''f'', S ''v'']),
    (S ''d'', [S ''s'', S ''e'', S ''r'', S ''f'', S ''c'', S ''x'']),
    (S ''e'', [S ''w'', S ''s'', S ''d'', S ''r'']),
    (S ''f'', [S ''d'', S ''r'', S ''t'', S ''g'', S ''v'', S ''c'']),
    (S ''g'', [S ''f'', S ''t'', S ''y'', S ''h'', S ''b'', S ''v'']),
    (S ''h'', [S ''g'', S ''y'', S ''u'', S ''j'', S ''n'', S ''b'']),
    (S ''i'', [S ''u'', S ''j'', S ''k'', S ''o'']),
    (S ''j'', [S ''h'', S ''u'', S ''i'', S ''k'', S ''m'', S ''n'']),
    (S ''k'', [S ''j'', S ''i'', S ''o'', S ''l'', S ''m'']),
    (S ''l'', [S ''k'', S ''o'', S ''p'']),
    (S ''m'', [S ''n'', S ''j'', S ''k'']),
    (S ''n'', [S ''b'', S ''h'', S ''j'', S ''m'']),
    (S ''o'', [S ''i'', S ''k'', S ''l'', S ''p'']),
    (S ''p'', [S ''o'', S ''l'']),
    (S ''q'', [S ''w'', S ''a'']),
    (S ''r'', [S ''e'', S ''d'', S ''f'', S ''t'']),
    (S ''s'', [S ''a'', S ''w'', S ''e'', S ''d'', S ''x'', S ''z'']),
    (S ''t'', [S ''r'', S ''f'', S ''g'', S ''y'']),
    (S ''u'', [S ''y'', S ''h'', S ''j'', S ''i'']),
    (S ''v'', [S ''c'', S ''f'', S ''g'', S ''b'']),
    (S ''w'', [S ''q'', S ''a'', S ''s'', S ''e'']),
    (S ''x'', [S ''z'', S ''s'', S ''d'', S ''c'']),
    (S ''y'', [S ''t'', S ''g'', S ''h'', S ''u'']),
    (S ''z'', [S ''a'', S ''s'', S ''x''])]"

definition PHONETIC_SUBSTITUTIONS :: "(pystr \<times> pystr list) list" where
  "PHONETIC_SUBSTITUTIONS = [
    (S ''f'', [S ''ph'']),
    (S ''ph'', [S ''f'']),
    (S ''ck'', [S ''k'', S ''c'']),
    (S ''k'', [S ''c'', S ''ck'']),
    (S ''c'', [S ''k'', S ''s'']),
    (S ''s'', [S ''c'', S ''z'']),
    (S ''z'', [S ''s'']),
    (S ''x'', [S ''ks'', S ''cks'']),
    (S ''w'', [S ''vv'', S ''uu'']),
    (S ''i'', [S ''y'', S ''ee'']),
    (S ''y'', [S ''i'', S ''ie'']),
    (S ''oo'', [S ''u'']),
    (S ''u'', [S ''oo''])]"

definition ALTERNATIVE_TLDS :: "pystr list" where
  "ALTERNATIVE_TLDS =
    [S ''com'', S ''net'', S ''org'', S ''info'', S ''biz'', S ''co'', S ''io'', S ''app'',
     S ''dev'', S ''ai'', S ''xyz'', S ''online'', S ''site'', S ''website'', S ''tech'', S ''store'',
     S ''shop'', S ''club'', S ''uk'', S ''us'', S ''de'', S ''fr'', S ''it'', S ''es'',
     S ''nl'', S ''ru'', S ''cn'', S ''jp'', S ''kr'', S ''in'', S ''au'', S ''ca'',
     S ''br'', S ''mx'', S ''pl'', S ''cz'', S ''ch'', S ''at'', S ''be'', S ''se'',
     S ''co.uk'', S ''com.au'', S ''co.in'', S ''co.jp'', S ''com.br'', S ''co.nz'', S ''com.mx'', S ''top'',
     S ''work'', S ''click'', S ''link'', S ''live'', S ''world'', S ''today'', S ''email'', S ''best'',
     S ''win'', S ''vip'', S ''ltd'', S ''group'', S ''company'', S ''solutions'']"

definition PHISHING_PREFIXES :: "pystr list" where
  "PHISHING_PREFIXES =
    [S ''www-'', S ''www.'', S ''login-'', S ''signin-'', S ''secure-'', S ''account-'', S ''my-'', S ''portal-'',
     S ''support-'', S ''help-'', S ''auth-'', S ''verify-'', S ''update-'', S ''service-'', S ''online-'', S ''web-'',
     S ''mobile-'', S ''app-'', S ''mail-'', S ''admin-'']"

definition PHISHING_SUFFIXES :: "pystr list" where
  "PHISHING_SUFFIXES =
    [S ''-login'', S ''-signin'', S ''-secure'', S ''-account'', S ''-portal'', S ''-support'', S ''-help'', S ''-auth'',
     S ''-verify'', S ''-update'', S ''-service'', S ''-online'', S ''-web'', S ''-mobile'', S ''-app'', S ''-mail'',
     S ''-admin'', S ''-official'', S ''-real'', S ''-security'', S ''-center'', S ''-team'', S ''-group'', S ''-inc'',
     S ''-corp'', S ''-ltd'']"

section \<open>Domain variant generator\<close>

datatype py_exception = IndexError | TypeError pystr

text \<open>\<open>str(e)\<close>\<close>

fun str_exception :: "py_exception \<Rightarrow> pystr" where
  "str_exception IndexError = S ''list index out of range''"
| "str_exception (TypeError msg) = msg"

text \<open>\<open>xs[i]\<close> for \<open>i \<ge> 0\<close>: IndexError out of range.\<close>

definition py_index :: "'a list \<Rightarrow> nat \<Rightarrow> py_exception + 'a" where
  "py_index xs i = (if i < length xs then Inr (xs ! i) else Inl IndexError)"

record HomographGenerator =
  config :: AnalysisConfig
  domain_name :: pystr
  tld :: pystr
  generated_variants :: "pystr fset"

text \<open>
  \<open>HomographGenerator._parse_domain\<close>, in two steps: \<open>clean_domain\<close> is the value
  of the variable \<open>domain\<close> once the scheme, the path and a leading \<open>www.\<close> are
  removed, \<open>parse_domain\<close> splits it. The source has no \<open>raise\<close>; the only
  operations that could raise are the two subscripts of a \<open>split\<close> result.
\<close>

definition clean_domain :: "runtime \<Rightarrow> pystr \<Rightarrow> py_exception + pystr" where
  "clean_domain rt domain0 =
     (case (let d = strip (lower rt domain0) in
            if contains d (S ''://'') then py_index (py_split d (S ''://'')) 1 else Inr d) of
        Inl e \<Rightarrow> Inl e
      | Inr d1 \<Rightarrow>
          (case (if contains d1 (S ''/'') then py_index (py_split d1 (S ''/'')) 0 else Inr d1) of
             Inl e \<Rightarrow> Inl e
           | Inr d2 \<Rightarrow> Inr (if startswith d2 (S ''www.'') then drop 4 d2 else d2)))"

definition parse_domain :: "runtime \<Rightarrow> pystr \<Rightarrow> py_exception + (pystr \<times> pystr)" where
  "parse_domain rt domain0 =
     (case clean_domain rt domain0 of
        Inl e \<Rightarrow> Inl e
      | Inr d3 \<Rightarrow>
          (case tldextract rt of
             Some extract \<Rightarrow> Inr (extract d3)
           | None \<Rightarrow>
               (case rsplit1 d3 46 of
                  [a, b] \<Rightarrow> Inr (a, b)
                | _ \<Rightarrow> Inr (d3, S ''com''))))"

text \<open>\<open>HomographGenerator.__init__\<close>.\<close>

definition HomographGenerator_init ::
  "runtime \<Rightarrow> AnalysisConfig \<Rightarrow> py_exception + HomographGenerator" where
  "HomographGenerator_init rt cfg =
     (case parse_domain rt (target_domain cfg) of
        Inl e \<Rightarrow> Inl e
      | Inr (n, t) \<Rightarrow>
          Inr \<lparr>config = cfg, domain_name = n, tld = t, generated_variants = {||}\<rparr>)"

text \<open>\<open>HomographGenerator._add_variant\<close>: the result and the generator after the call.\<close>

definition add_variant ::
  "runtime \<Rightarrow> HomographGenerator \<Rightarrow> pystr \<Rightarrow> pystr \<Rightarrow> pystr \<Rightarrow> pystr
     \<Rightarrow> DomainVariant option \<times> HomographGenerator" where
  "add_variant rt self name0 tld0 tech detail =
     (let name = strip (lower rt name0); tld1 = strip (lower rt tld0) in
      if name = [] \<or> tld1 = [] then (None, self)
      else
        let full_domain = name @ S ''.'' @ tld1 in
        if full_domain = domain_name self @ S ''.'' @ tld self then (None, self)
        else if full_domain |\<in>| generated_variants self then (None, self)
        else if max_variants (config self) \<le> int (fcard (generated_variants self))
          then (None, self)
        else
          (Some (new_DomainVariant (domain_name self @ S ''.'' @ tld self)
                   full_domain tech detail),
           self\<lparr>generated_variants := finsert full_domain (generated_variants self)\<rparr>))"

text \<open>
  Every technique is a loop that computes the arguments of one \<open>_add_variant\<close> call
  after the other from \<open>self.domain_name\<close> and \<open>self.tld\<close> alone, and appends the
  result when it is not \<open>None\<close>. The arguments (name, tld, technique, detail) of
  the calls of a technique, in the order of its loops, are its candidates;
  \<open>add_all\<close> makes the calls.
\<close>

type_synonym candidate = "pystr \<times> pystr \<times> pystr \<times> pystr"

fun add_all ::
  "runtime \<Rightarrow> HomographGenerator \<Rightarrow> candidate list
     \<Rightarrow> DomainVariant list \<times> HomographGenerator" where
  "add_all rt self [] = ([], self)"
| "add_all rt self ((n, t, tech, detail) # cs) =
     (case add_variant rt self n t tech detail of
        (None, self') \<Rightarrow> add_all rt self' cs
      | (Some v, self') \<Rightarrow>
          (case add_all rt self' cs of (vs, self'') \<Rightarrow> (v # vs, self'')))"

definition candidate_technique :: "candidate \<Rightarrow> pystr" where
  "candidate_technique c = (case c of (n, t, tech, detail) \<Rightarrow> tech)"

text \<open>\<open>f"'{s}'"\<close>\<close>

definition q :: "pystr \<Rightarrow> pystr" where
  "q s = [39] @ s @ [39]"

fun confusable_candidates ::
  "(pystr \<Rightarrow> pystr list list option) \<Rightarrow> pystr \<Rightarrow> pystr \<Rightarrow> (nat \<times> nat) list
     \<Rightarrow> candidate list" where
  "confusable_candidates f name tld0 [] = []"
| "confusable_candidates f name tld0 ((i, c) # rest) =
     (case f [c] of
        None \<Rightarrow> []
      | Some conf \<Rightarrow>
          concat (map (\<lambda>item.
            concat (map (\<lambda>repl.
              if repl \<noteq> [] \<and> repl \<noteq> [c]
              then [(subst_at name i repl, tld0, S ''homograph'',
                     S ''Confusable: '' @ q [c] @ S '' -> '' @ q repl)]
              else []) (take 2 item))) (take 2 conf))
          @ confusable_candidates f name tld0 rest)"

definition homograph_candidates :: "runtime \<Rightarrow> pystr \<Rightarrow> pystr \<Rightarrow> candidate list" where
  "homograph_candidates rt name tld0 =
     concat (map (\<lambda>(i, c).
       case map_of HOMOGRAPH_MAPPINGS [c] of
         None \<Rightarrow> []
       | Some reps \<Rightarrow>
           map (\<lambda>r. (subst_at name i r, tld0, S ''homograph'',
                      S ''Replaced '' @ q [c] @ S '' with '' @ q r)) (take 3 reps))
       (enumerate 0 name))
     @ (case is_confusable rt of
          None \<Rightarrow> []
        | Some f \<Rightarrow> confusable_candidates f name tld0 (enumerate 0 name))"

definition leetspeak_candidates :: "pystr \<Rightarrow> pystr \<Rightarrow> candidate list" where
  "leetspeak_candidates name tld0 =
     concat (map (\<lambda>(i, c).
       case map_of LEETSPEAK_MAPPINGS [c] of
         None \<Rightarrow> []
       | Some reps \<Rightarrow>
           map (\<lambda>r. (subst_at name i r, tld0, S ''leetspeak'',
                      S ''Replaced '' @ q [c] @ S '' with '' @ q r)) reps)
       (enumerate 0 name))"

definition typo_candidates :: "pystr \<Rightarrow> pystr \<Rightarrow> candidate list" where
  "typo_candidates name tld0 =
     concat (map (\<lambda>(i, c).
       case map_of KEYBOARD_TYPOS [c] of
         None \<Rightarrow> []
       | Some reps \<Rightarrow>
           map (\<lambda>r. (subst_at name i r, tld0, S ''typo'',
                      S ''Keyboard typo: '' @ q [c] @ S '' -> '' @ q r)) (take 2 reps))
       (enumerate 0 name))"

definition phonetic_candidates :: "pystr \<Rightarrow> pystr \<Rightarrow> candidate list" where
  "phonetic_candidates name tld0 =
     concat (map (\<lambda>(pattern, replacements).
       if contains name pattern
       then map (\<lambda>r. (replace_first name pattern r, tld0, S ''phonetic'',
                       S ''Phonetic: '' @ q pattern @ S '' -> '' @ q r)) replacements
       else [])
       PHONETIC_SUBSTITUTIONS)"

definition repetition_candidates :: "runtime \<Rightarrow> pystr \<Rightarrow> pystr \<Rightarrow> candidate list" where
  "repetition_candidates rt name tld0 =
     concat (map (\<lambda>(i, c).
       if isalpha rt c
       then [(take i name @ [c] @ [c] @ drop (Suc i) name, tld0, S ''repetition'',
              S ''Doubled '' @ q [c] @ S '' at position '' @ str_nat i)]
       else [])
       (enumerate 0 name))"

definition omission_candidates :: "pystr \<Rightarrow> pystr \<Rightarrow> candidate list" where
  "omission_candidates name tld0 =
     concat (map (\<lambda>i.
       let new_name = take i name @ drop (Suc i) name in
       if new_name \<noteq> []
       then [(new_name, tld0, S ''omission'',
              S ''Omitted '' @ q [name ! i] @ S '' at position '' @ str_nat i)]
       else [])
       [0..<length name])"

definition insertion_candidates :: "pystr \<Rightarrow> pystr \<Rightarrow> candidate list" where
  "insertion_candidates name tld0 =
     concat (map (\<lambda>i.
       map (\<lambda>c. (take i name @ [c] @ drop i name, tld0, S ''insertion'',
                  S ''Inserted '' @ q [c] @ S '' at position '' @ str_nat i))
         (S ''aeiourstnl''))
       [0..<length name + 1])"

definition transposition_candidates :: "pystr \<Rightarrow> pystr \<Rightarrow> candidate list" where
  "transposition_candidates name tld0 =
     map (\<lambda>i. (take i name @ [name ! (i + 1)] @ [name ! i] @ drop (i + 2) name, tld0,
                S ''transposition'',
                S ''Swapped '' @ q [name ! i] @ S '' and '' @ q [name ! (i + 1)]))
       [0..<length name - 1]"

definition hyphenation_candidates :: "pystr \<Rightarrow> pystr \<Rightarrow> candidate list" where
  "hyphenation_candidates name tld0 =
     map (\<lambda>i. (take i name @ S ''-'' @ drop i name, tld0, S ''hyphenation'',
                S ''Hyphen inserted at position '' @ str_nat i))
       [1..<length name]
     @ (if contains name (S ''-'')
        then [(remove_all name 45, tld0, S ''hyphenation'', S ''Removed hyphens'')]
        else [])"

definition tld_candidates :: "pystr \<Rightarrow> pystr \<Rightarrow> candidate list" where
  "tld_candidates name tld0 =
     concat (map (\<lambda>t.
       if t \<noteq> tld0
       then [(name, t, S ''tld_swap'',
              S ''Changed TLD from '' @ q (S ''.'' @ tld0) @ S '' to '' @ q (S ''.'' @ t))]
       else [])
       ALTERNATIVE_TLDS)"

definition prefix_candidates :: "pystr \<Rightarrow> pystr \<Rightarrow> candidate list" where
  "prefix_candidates name tld0 =
     map (\<lambda>p. (rstrip p (S ''-.'') @ name, tld0, S ''prefix'',
                S ''Added prefix '' @ q p))
       PHISHING_PREFIXES"

definition suffix_candidates :: "pystr \<Rightarrow> pystr \<Rightarrow> candidate list" where
  "suffix_candidates name tld0 =
     map (\<lambda>s. (name @ lstrip s (S ''-''), tld0, S ''suffix'',
                S ''Added suffix '' @ q s))
       PHISHING_SUFFIXES"

definition vowel_swap_candidates :: "pystr \<Rightarrow> pystr \<Rightarrow> candidate list" where
  "vowel_swap_candidates name tld0 =
     concat (map (\<lambda>(i, c).
       if c \<in> set (S ''aeiou'')
       then concat (map (\<lambda>vowel.
              if vowel \<noteq> c
              then [(subst_at name i [vowel], tld0, S ''vowel_swap'',
                     S ''Swapped '' @ q [c] @ S '' with '' @ q [vowel])]
              else []) (S ''aeiou''))
       else [])
       (enumerate 0 name))"

definition double_char_candidates :: "pystr \<Rightarrow> pystr \<Rightarrow> candidate list" where
  "double_char_candidates name tld0 =
     concat (map (\<lambda>i.
       if name ! i = name ! (i + 1)
       then [(take i name @ drop (i + 1) name, tld0, S ''double_char'',
              S ''Reduced double '' @ q [name ! i])]
       else [])
       [0..<length name - 1])"

definition bitsquatting_candidates :: "pystr \<Rightarrow> pystr \<Rightarrow> candidate list" where
  "bitsquatting_candidates name tld0 =
     concat (map (\<lambda>(i, c).
       concat (map (\<lambda>bit.
         let flipped = c XOR push_bit bit 1 in
         if 97 \<le> flipped \<and> flipped \<le> 122
         then (if flipped \<noteq> c
               then [(subst_at name i [flipped], tld0, S ''bitsquatting'',
                      S ''Bit flip: '' @ q [c] @ S '' -> '' @ q [flipped])]
               else [])
         else []) [0..<8]))
       (enumerate 0 name))"

definition subdomain_candidates :: "pystr \<Rightarrow> candidate list" where
  "subdomain_candidates name =
     map (\<lambda>sub. (name @ S ''.'' @ sub, S ''com'', S ''subdomain'',
                  S ''Domain as subdomain: '' @ sub @ S ''.com''))
       [S ''login'', S ''secure'', S ''account'', S ''auth'', S ''my'', S ''portal'']"

text \<open>The sixteen \<open>_generate_...\<close> methods.\<close>

type_synonym technique_method =
  "runtime \<Rightarrow> HomographGenerator \<Rightarrow> DomainVariant list \<times> HomographGenerator"

definition generate_homograph :: technique_method where
  "generate_homograph rt self =
     add_all rt self (homograph_candidates rt (domain_name self) (tld self))"

definition generate_leetspeak :: technique_method where
  "generate_leetspeak rt self =
     add_all rt self (leetspeak_candidates (domain_name self) (tld self))"

definition generate_typo :: technique_method where
  "generate_typo rt self =
     add_all rt self (typo_candidates (domain_name self) (tld self))"

definition generate_phonetic :: technique_method where
  "generate_phonetic rt self =
     add_all rt self (phonetic_candidates (domain_name self) (tld self))"

definition generate_repetition :: technique_method where
  "generate_repetition rt self =
     add_all rt self (repetition_candidates rt (domain_name self) (tld self))"

definition generate_omission :: technique_method where
  "generate_omission rt self =
     add_all rt self (omission_candidates (domain_name self) (tld self))"

definition generate_insertion :: technique_method where
  "generate_insertion rt self =
     add_all rt self (insertion_candidates (domain_name self) (tld self))"

definition generate_transposition :: technique_method where
  "generate_transposition rt self =
     add_all rt self (transposition_candidates (domain_name self) (tld self))"

definition generate_hyphenation :: technique_method where
  "generate_hyphenation rt self =
     add_all rt self (hyphenation_candidates (domain_name self) (tld self))"

definition generate_tld :: technique_method where
  "generate_tld rt self =
     add_all rt self (tld_candidates (domain_name self) (tld self))"

definition generate_prefix :: technique_method where
  "generate_prefix rt self =
     add_all rt self (prefix_candidates (domain_name self) (tld self))"

definition generate_suffix :: technique_method where
  "generate_suffix rt self =
     add_all rt self (suffix_candidates (domain_name self) (tld self))"

definition generate_vowel_swap :: technique_method where
  "generate_vowel_swap rt self =
     add_all rt self (vowel_swap_candidates (domain_name self) (tld self))"

definition generate_double_char :: technique_method where
  "generate_double_char rt self =
     add_all rt self (double_char_candidates (domain_name self) (tld self))"

definition generate_bitsquatting :: technique_method where
  "generate_bitsquatting rt self =
     add_all rt self (bitsquatting_candidates (domain_name self) (tld self))"

definition generate_subdomain :: technique_method where
  "generate_subdomain rt self =
     add_all rt self (subdomain_candidates (domain_name self))"

text \<open>
  \<open>getattr(self, f'_generate_{technique}', None)\<close>: the class has exactly these
  sixteen attributes whose name starts with \<open>_generate_\<close>.
\<close>

definition getattr_generate :: "pystr \<Rightarrow> technique_method option" where
  "getattr_generate t =
     map_of [(S ''homograph'', generate_homograph),
             (S ''leetspeak'', generate_leetspeak),
             (S ''typo'', generate_typo),
             (S ''phonetic'', generate_phonetic),
             (S ''repetition'', generate_repetition),
             (S ''omission'', generate_omission),
             (S ''insertion'', generate_insertion),
             (S ''transposition'', generate_transposition),
             (S ''hyphenation'', generate_hyphenation),
             (S ''tld'', generate_tld),
             (S ''prefix'', generate_prefix),
             (S ''suffix'', generate_suffix),
             (S ''vowel_swap'', generate_vowel_swap),
             (S ''double_char'', generate_double_char),
             (S ''bitsquatting'', generate_bitsquatting),
             (S ''subdomain'', generate_subdomain)] t"

text \<open>
  \<open>HomographGenerator.generate_all\<close>. No technique of this model raises (the
  confusables library is called inside its own \<open>try\<close>), so the \<open>except\<close> of the loop
  has no branch here.
\<close>

fun run_techniques ::
  "runtime \<Rightarrow> HomographGenerator \<Rightarrow> pystr list
     \<Rightarrow> DomainVariant list \<times> HomographGenerator" where
  "run_techniques rt self [] = ([], self)"
| "run_techniques rt self (t # ts) =
     (case getattr_generate t of
        None \<Rightarrow> run_techniques rt self ts
      | Some meth \<Rightarrow>
          (case meth rt self of
             (results, self') \<Rightarrow>
               (case run_techniques rt self' ts of
                  (variants, self'') \<Rightarrow> (results @ variants, self''))))"

definition generate_all ::
  "runtime \<Rightarrow> HomographGenerator \<Rightarrow> DomainVariant list \<times> HomographGenerator" where
  "generate_all rt self =
     run_techniques rt self
       (if S ''all'' \<in> set (techniques (config self))
        then [S ''homograph'', S ''leetspeak'', S ''typo'', S ''phonetic'',
              S ''repetition'', S ''omission'', S ''insertion'', S ''transposition'',
              S ''hyphenation'', S ''tld'', S ''prefix'', S ''suffix'', S ''vowel_swap'',
              S ''double_char'', S ''bitsquatting'', S ''subdomain'']
        else techniques (config self))"

text \<open>
  The candidates of the technique a name selects (none for a name that selects no
  technique), and those of a whole list of technique names: the arguments of every
  \<open>_add_variant\<close> call of a \<open>generate_all\<close> run, in order.
\<close>

definition technique_candidates :: "runtime \<Rightarrow> pystr \<Rightarrow> pystr \<Rightarrow> pystr \<Rightarrow> candidate list" where
  "technique_candidates rt name tld0 t =
     (if t = S ''homograph'' then homograph_candidates rt name tld0
      else if t = S ''leetspeak'' then leetspeak_candidates name tld0
      else if t = S ''typo'' then typo_candidates name tld0
      else if t = S ''phonetic'' then phonetic_candidates name tld0
      else if t = S ''repetition'' then repetition_candidates rt name tld0
      else if t = S ''omission'' then omission_candidates name tld0
      else if t = S ''insertion'' then insertion_candidates name tld0
      else if t = S ''transposition'' then transposition_candidates name tld0
      else if t = S ''hyphenation'' then hyphenation_candidates name tld0
      else if t = S ''tld'' then tld_candidates name tld0
      else if t = S ''prefix'' then prefix_candidates name tld0
      else if t = S ''suffix'' then suffix_candidates name tld0
      else if t = S ''vowel_swap'' then vowel_swap_candidates name tld0
      else if t = S ''double_char'' then double_char_candidates name tld0
      else if t = S ''bitsquatting'' then bitsquatting_candidates name tld0
      else if t = S ''subdomain'' then subdomain_candidates name
      else [])"

definition all_candidates :: "runtime \<Rightarrow> pystr \<Rightarrow> pystr \<Rightarrow> pystr list \<Rightarrow> candidate list" where
  "all_candidates rt name tld0 ts = concat (map (technique_candidates rt name tld0) ts)"

text \<open>An interpreter with none of the optional libraries, and a network that resolves nothing.\<close>

definition offline_runtime :: runtime where
  "offline_runtime =
     \<lparr>unicode_lower = (\<lambda>s. s), unicode_isalpha = (\<lambda>c. False), tldextract = None,
      is_confusable = None, dns_resolver = None, gethostbyname = (\<lambda>d. gaierror),
      whois_whois = None, strptime_ymd = (\<lambda>s. None), py_str = (\<lambda>v. []), now = 0\<rparr>"

section \<open>Domain analyzer\<close>

text \<open>
  \<open>DomainAnalyzer.check_dns\<close>: the pair it returns and the calls it makes. With a
  resolver the four record types are queried in turn; an answer is stored and sets
  the flag, every exception is passed over. Without one, a single host lookup.
\<close>

fun resolve_types ::
  "(pystr \<Rightarrow> pystr \<Rightarrow> dns_outcome) \<Rightarrow> pystr \<Rightarrow> pystr list
     \<Rightarrow> (bool \<times> (pystr \<times> pystr list) list) \<times> call list" where
  "resolve_types resolve domain [] = ((False, []), [])"
| "resolve_types resolve domain (record_type # rest) =
     (case resolve_types resolve domain rest of
        ((is_reg, records), calls) \<Rightarrow>
          (case resolve domain record_type of
             Answers answers \<Rightarrow>
               ((True, (record_type, answers) # records),
                DnsQuery domain record_type # calls)
           | _ \<Rightarrow> ((is_reg, records), DnsQuery domain record_type # calls)))"

definition DomainAnalyzer_check_dns ::
  "runtime \<Rightarrow> pystr \<Rightarrow> (bool \<times> (pystr \<times> pystr list) list) \<times> call list" where
  "DomainAnalyzer_check_dns rt domain =
     (case dns_resolver rt of
        Some resolve \<Rightarrow>
          resolve_types resolve domain [S ''A'', S ''AAAA'', S ''MX'', S ''NS'']
      | None \<Rightarrow>
          (case gethostbyname rt domain of
             Resolved result \<Rightarrow> ((True, [(S ''A'', [result])]), [HostLookup domain])
           | _ \<Rightarrow> ((False, []), [HostLookup domain])))"

text \<open>
  \<open>DomainAnalyzer.get_whois\<close>: the triple (creation_date, registrar, whois_data) and
  the calls. An exception of the lookup is caught inside and leaves the three
  initial values.
\<close>

definition get_whois ::
  "runtime \<Rightarrow> pystr \<Rightarrow> (pyval \<times> pyval \<times> (pystr \<times> pyval) list) \<times> call list" where
  "get_whois rt domain =
     (case whois_whois rt of
        None \<Rightarrow> ((PyNone, PyNone, []), [])
      | Some whois \<Rightarrow>
          (case whois domain of
             WhoisException e \<Rightarrow> ((PyNone, PyNone, []), [WhoisQuery domain])
           | WhoisEntry w \<Rightarrow>
               (let cd = entry_creation_date w;
                    c1 = (case cd of
                            PyList l \<Rightarrow> (case l of [] \<Rightarrow> PyNone | x # xs \<Rightarrow> x)
                          | _ \<Rightarrow> cd);
                    c2 = (if truthy c1 \<and> \<not> is_datetime c1
                          then (case strptime_ymd rt (py_str rt c1) of
                                  None \<Rightarrow> PyNone
                                | Some t \<Rightarrow> PyDatetime (Naive t))
                          else c1)
                in ((c2, entry_registrar w, entry_items w), [WhoisQuery domain]))))"

text \<open>\<open>DomainAnalyzer.calculate_trust_level\<close>.\<close>

definition calculate_trust_level :: "AnalysisConfig \<Rightarrow> int option \<Rightarrow> pystr \<times> int" where
  "calculate_trust_level cfg age_days =
     (case age_days of
        None \<Rightarrow> (S ''unknown'', 50)
      | Some age \<Rightarrow>
          (let threshold = trust_threshold_days cfg in
           if age < 30 then (S ''critical'', 95)
           else if age < 90 then (S ''high_risk'', 85)
           else if age < 180 then (S ''suspicious'', 70)
           else if age < 365 then (S ''low_trust'', 55)
           else if age < threshold then (S ''moderate'', 35)
           else (S ''established'', 15)))"

text \<open>
  \<open>timedelta.days\<close> of \<open>datetime.now() - creation_date\<close>: a timedelta is normalised
  with its seconds and microseconds non-negative, so \<open>days\<close> is the difference
  divided by one day and rounded down. An aware operand raises TypeError, as does
  a value that is no datetime.
\<close>

definition microseconds_per_day :: int where
  "microseconds_per_day = 86400000000"

fun age_in_days :: "int \<Rightarrow> pyval \<Rightarrow> py_exception + int" where
  "age_in_days t (PyDatetime (Naive c)) = Inr ((t - c) div microseconds_per_day)"
| "age_in_days t (PyDatetime (Aware c)) =
     Inl (TypeError (S ''can'' @ [39] @ S ''t subtract offset-naive and offset-aware datetimes''))"
| "age_in_days t v =
     Inl (TypeError (S ''unsupported operand type(s) for -''))"

definition WHOIS_KEYS :: "pystr list" where
  "WHOIS_KEYS = [S ''domain_name'', S ''registrar'', S ''creation_date'',
                 S ''expiration_date'', S ''name_servers'', S ''org'', S ''country'']"

definition set_trust :: "AnalysisConfig \<Rightarrow> DomainVariant \<Rightarrow> DomainVariant" where
  "set_trust cfg v =
     (case calculate_trust_level cfg (domain_age_days v) of
        (level, score) \<Rightarrow> v\<lparr>trust_level := level, risk_score := score\<rparr>)"

text \<open>
  \<open>DomainAnalyzer.analyze_variant\<close>: the variant it returns and the calls it made.
  The fields are assigned in the order of the source, so that the exception of the
  subtraction leaves the variant with what was assigned before it, and \<open>error\<close>.
\<close>

definition analyze_variant ::
  "runtime \<Rightarrow> AnalysisConfig \<Rightarrow> DomainVariant \<Rightarrow> DomainVariant \<times> call list" where
  "analyze_variant rt cfg variant =
     (case (if check_dns cfg
            then (case DomainAnalyzer_check_dns rt (variant_domain variant) of
                    ((is_reg, records), calls) \<Rightarrow>
                      (variant\<lparr>is_registered := is_reg, dns_records := records\<rparr>, calls))
            else (variant, [])) of
        (v1, calls1) \<Rightarrow>
          if is_registered v1 \<and> check_whois cfg then
            (case get_whois rt (variant_domain v1) of
               ((cd, reg, data), calls2) \<Rightarrow>
                 (let v2 = v1\<lparr>creation_date := cd, registrar := reg,
                              whois_data := map (\<lambda>(k, v). (k, py_str rt v))
                                (filter (\<lambda>(k, v). k \<in> set WHOIS_KEYS) data)\<rparr>
                  in if truthy cd then
                       (case age_in_days (now rt) cd of
                          Inl e \<Rightarrow> (v2\<lparr>error := Some (str_exception e)\<rparr>, calls1 @ calls2)
                        | Inr days \<Rightarrow>
                            (set_trust cfg (v2\<lparr>domain_age_days := Some days\<rparr>),
                             calls1 @ calls2))
                     else (set_trust cfg v2, calls1 @ calls2)))
          else if is_registered v1 then
            (v1\<lparr>trust_level := S ''unknown'', risk_score := 50\<rparr>, calls1)
          else
            (v1\<lparr>trust_level := S ''unregistered'', risk_score := 0\<rparr>, calls1))"

section \<open>Sorting the results\<close>

text \<open>
  \<open>list.sort(key=..., reverse=True)\<close>: the sort is stable and, with \<open>reverse\<close>, the
  list is reversed, sorted and reversed again, so that elements with equal keys keep
  the order they had.
\<close>

definition py_sort_reverse :: "('a \<Rightarrow> int) \<Rightarrow> 'a list \<Rightarrow> 'a list" where
  "py_sort_reverse key xs = rev (sort_key key (rev xs))"

text \<open>The sort of \<open>main\<close> after \<open>analyze_all\<close>, and the list \<open>format_console\<close> prints.\<close>

definition main_sort :: "DomainVariant list \<Rightarrow> DomainVariant list" where
  "main_sort results = py_sort_reverse risk_score results"

definition format_console :: "AnalysisConfig \<Rightarrow> DomainVariant list \<Rightarrow> DomainVariant list" where
  "format_console cfg results =
     py_sort_reverse risk_score
       (if \<not> include_unregistered cfg then filter is_registered results else results)"

text \<open>
  A network for examples: every name has an A record and no other, every WHOIS
  lookup has the outcome \<open>w\<close>, and the clock shows \<open>t\<close>.
\<close>

definition example_runtime :: "whois_outcome \<Rightarrow> int \<Rightarrow> runtime" where
  "example_runtime w t =
     offline_runtime
       \<lparr>dns_resolver :=
          Some (\<lambda>domain record_type.
            if record_type = S ''A'' then Answers [S ''192.0.2.1''] else NoAnswer),
        whois_whois := Some (\<lambda>domain. w),
        now := t\<rparr>"

section \<open>Evaluating string operations on literals\<close>

lemmas string_eval = S_def q_def strip_def lower_def isspace_def ascii_lower_def contains_def
  startswith_def rsplit1_def subst_at_def

section \<open>The domain parser\<close>

lemma py_split_nonempty: "py_split s sep \<noteq> []"
  by (subst py_split.simps) (simp split: option.splits)

lemma py_split_contains:
  assumes "contains s sep" and "sep \<noteq> []"
  shows "\<exists>a b rest. py_split s sep = a # b # rest"
proof -
  from assms(1) obtain i where found: "py_find s sep = Some i"
    by (auto simp: contains_def)
  obtain b rest where "py_split (drop (i + length sep) s) sep = b # rest"
    using py_split_nonempty [of "drop (i + length sep) s" sep]
    by (cases "py_split (drop (i + length sep) s) sep") auto
  with found assms(2) have "py_split s sep = take i s # b # rest"
    by (subst py_split.simps) simp
  then show ?thesis by blast
qed

lemma clean_domain_returns: "\<exists>s. clean_domain rt d = Inr s"
proof -
  have scheme: "S ''://'' \<noteq> []" and slash: "S ''/'' \<noteq> []"
    by (simp_all add: S_def)
  have first: "\<exists>d1. (let d = strip (lower rt d) in
      if contains d (S ''://'') then py_index (py_split d (S ''://'')) 1 else Inr d) = Inr d1"
  proof (cases "contains (strip (lower rt d)) (S ''://'')")
    case True
    from py_split_contains [OF True scheme] show ?thesis
      using True by (auto simp: py_index_def)
  next
    case False
    then show ?thesis by simp
  qed
  then obtain d1 where d1: "(let d = strip (lower rt d) in
      if contains d (S ''://'') then py_index (py_split d (S ''://'')) 1 else Inr d) = Inr d1"
    by blast
  have "\<exists>d2. (if contains d1 (S ''/'') then py_index (py_split d1 (S ''/'')) 0 else Inr d1) = Inr d2"
  proof (cases "contains d1 (S ''/'')")
    case True
    from py_split_contains [OF True slash] show ?thesis
      using True by (auto simp: py_index_def)
  next
    case False
    then show ?thesis by simp
  qed
  then obtain d2 where
    "(if contains d1 (S ''/'') then py_index (py_split d1 (S ''/'')) 0 else Inr d1) = Inr d2"
    by blast
  with d1 show ?thesis
    unfolding clean_domain_def by simp
qed

lemma rsplit1_no_sep: "c \<notin> set s \<Longrightarrow> rsplit1 s c = [s]"
  by (simp add: rsplit1_def)

lemma rsplit1_sep:
  assumes "c \<in> set s"
  shows "\<exists>a b. rsplit1 s c = [a, b] \<and> s = a @ [c] @ b \<and> c \<notin> set b"
proof -
  let ?P = "\<lambda>x. x \<noteq> c"
  let ?tw = "takeWhile ?P (rev s)" and ?dw = "dropWhile ?P (rev s)"
  from assms have "\<not> list_all ?P (rev s)"
    by (auto simp: list_all_iff)
  then have ne: "?dw \<noteq> []"
    by (simp add: list_all_iff dropWhile_eq_Nil_conv)
  with hd_dropWhile [of ?P "rev s"] have "hd ?dw = c"
    by simp
  with ne have dw: "?dw = c # tl ?dw"
    by (cases ?dw) auto
  have "rev s = ?tw @ ?dw"
    by simp
  with dw have "rev s = ?tw @ c # tl ?dw"
    by simp
  then have "rev (rev s) = rev (?tw @ c # tl ?dw)"
    by (rule arg_cong)
  then have s: "s = rev (tl ?dw) @ [c] @ rev ?tw"
    by simp
  have "c \<notin> set (rev ?tw)"
    by (auto dest: set_takeWhileD)
  with assms s show ?thesis
    unfolding rsplit1_def by auto
qed

text \<open>
  C4 (as amended). The parser has no failure: for every input the cleaning step
  returns a string and \<open>_parse_domain\<close> returns a pair. Without the tldextract
  library, a cleaned string without a dot (the empty string too) gives that string
  with the TLD \<open>com\<close>, and one with a dot is split at its last dot. (With the
  library the pair is whatever \<open>tldextract.extract\<close> gives for the cleaned string.)
\<close>

theorem parse_domain_never_fails:
  "(\<exists>s. clean_domain rt d = Inr s) \<and>
   (\<exists>name t. parse_domain rt d = Inr (name, t)) \<and>
   (tldextract rt = None \<and> clean_domain rt d = Inr s \<and> 46 \<notin> set s \<longrightarrow>
      parse_domain rt d = Inr (s, S ''com'')) \<and>
   (tldextract rt = None \<and> clean_domain rt d = Inr s \<and> 46 \<in> set s \<longrightarrow>
      (\<exists>name t. parse_domain rt d = Inr (name, t) \<and> s = name @ S ''.'' @ t \<and> 46 \<notin> set t))"
proof (intro conjI impI)
  show "\<exists>s. clean_domain rt d = Inr s"
    by (rule clean_domain_returns)
next
  from clean_domain_returns obtain s' where s': "clean_domain rt d = Inr s'"
    by blast
  show "\<exists>name t. parse_domain rt d = Inr (name, t)"
  proof (cases "tldextract rt")
    case (Some lib)
    with s' have "parse_domain rt d = Inr (fst (lib s'), snd (lib s'))"
      by (simp add: parse_domain_def)
    then show ?thesis by blast
  next
    case None
    show ?thesis
    proof (cases "46 \<in> set s'")
      case True
      from rsplit1_sep [OF True] obtain a b where "rsplit1 s' 46 = [a, b]"
        by blast
      with s' None have "parse_domain rt d = Inr (a, b)"
        by (simp add: parse_domain_def)
      then show ?thesis by blast
    next
      case False
      with s' None have "parse_domain rt d = Inr (s', S ''com'')"
        by (simp add: parse_domain_def rsplit1_no_sep)
      then show ?thesis by blast
    qed
  qed
next
  assume "tldextract rt = None \<and> clean_domain rt d = Inr s \<and> 46 \<notin> set s"
  then show "parse_domain rt d = Inr (s, S ''com'')"
    by (simp add: parse_domain_def rsplit1_no_sep)
next
  assume a: "tldextract rt = None \<and> clean_domain rt d = Inr s \<and> 46 \<in> set s"
  then have "46 \<in> set s" by simp
  from rsplit1_sep [OF this] obtain a b
    where "rsplit1 s 46 = [a, b]" and "s = a @ [46] @ b" and "46 \<notin> set b"
    by blast
  with a have "parse_domain rt d = Inr (a, b) \<and> s = a @ S ''.'' @ b \<and> 46 \<notin> set b"
    by (simp add: parse_domain_def S_def)
  then show "\<exists>name t. parse_domain rt d = Inr (name, t) \<and> s = name @ S ''.'' @ t \<and> 46 \<notin> set t"
    by blast
qed

text \<open>
  Two targets without the library: \<open>localhost\<close> has no dot and gets the TLD \<open>com\<close>;
  \<open>https://www.Example.co.uk/path\<close> is cleaned to \<open>example.co.uk\<close> and split at the
  last dot.
\<close>

lemma clean_domain_examples:
  "clean_domain offline_runtime (S ''localhost'') = Inr (S ''localhost'')"
  "clean_domain offline_runtime (S ''https://www.Example.co.uk/path'') = Inr (S ''example.co.uk'')"
  by (simp_all add: clean_domain_def offline_runtime_def string_eval py_index_def py_split.simps)

lemma parse_domain_example:
  "parse_domain offline_runtime (S ''https://www.Example.co.uk/path'')
     = Inr (S ''example.co'', S ''uk'')"
  by (simp add: parse_domain_def clean_domain_examples)
    (simp add: offline_runtime_def string_eval)

theorem parse_domain_never_fails_witness:
  "tldextract offline_runtime = None \<and>
   clean_domain offline_runtime (S ''localhost'') = Inr (S ''localhost'') \<and>
   46 \<notin> set (S ''localhost'') \<and>
   parse_domain offline_runtime (S ''localhost'') = Inr (S ''localhost'', S ''com'') \<and>
   clean_domain offline_runtime (S ''https://www.Example.co.uk/path'') = Inr (S ''example.co.uk'') \<and>
   46 \<in> set (S ''example.co.uk'') \<and>
   (\<exists>name t. parse_domain offline_runtime (S ''https://www.Example.co.uk/path'') = Inr (name, t) \<and>
      S ''example.co.uk'' = name @ S ''.'' @ t \<and> 46 \<notin> set t)"
proof -
  have lib: "tldextract offline_runtime = None"
    by (simp add: offline_runtime_def)
  have dots: "46 \<notin> set (S ''localhost'')" "46 \<in> set (S ''example.co.uk'')"
    by (simp_all add: S_def)
  from parse_domain_never_fails [of offline_runtime "S ''localhost''" "S ''localhost''"]
    parse_domain_never_fails [of offline_runtime "S ''https://www.Example.co.uk/path''"
      "S ''example.co.uk''"]
    lib dots clean_domain_examples
  show ?thesis
    by (simp only: simp_thms)
qed

text \<open>
  The claim as it is written fails for an input that is empty after the cleaning:
  the empty string and \<open>http://\<close> are both cleaned to the empty string, and the
  parser returns the pair of the empty name and \<open>com\<close>, not an error.
\<close>

theorem parse_domain_empty_counterexample:
  "clean_domain offline_runtime [] = Inr [] \<and>
   parse_domain offline_runtime [] = Inr ([], S ''com'') \<and>
   clean_domain offline_runtime (S ''http://'') = Inr [] \<and>
   parse_domain offline_runtime (S ''http://'') = Inr ([], S ''com'')"
  by (simp add: parse_domain_def clean_domain_def offline_runtime_def string_eval py_index_def
      py_split.simps)

section \<open>Properties of the generator\<close>

subsection \<open>One call and a sequence of calls of \<open>_add_variant\<close>\<close>

lemma add_variant_None_or_Some:
  "add_variant rt self n t tech d = (None, self) \<or>
   (add_variant rt self n t tech d =
      (Some (new_DomainVariant (domain_name self @ S ''.'' @ tld self)
               (strip (lower rt n) @ S ''.'' @ strip (lower rt t)) tech d),
       self\<lparr>generated_variants :=
              finsert (strip (lower rt n) @ S ''.'' @ strip (lower rt t)) (generated_variants self)\<rparr>) \<and>
    strip (lower rt n) @ S ''.'' @ strip (lower rt t) \<noteq> domain_name self @ S ''.'' @ tld self \<and>
    strip (lower rt n) @ S ''.'' @ strip (lower rt t) |\<notin>| generated_variants self \<and>
    int (fcard (generated_variants self)) < max_variants (config self))"
  by (simp add: add_variant_def Let_def)

lemma add_variant_cap:
  "max_variants (config self) \<le> int (fcard (generated_variants self)) \<Longrightarrow>
   add_variant rt self n t tech d = (None, self)"
  by (simp add: add_variant_def Let_def)

lemma new_DomainVariant_sel [simp]:
  "variant_domain (new_DomainVariant orig full tech d) = full"
  "technique (new_DomainVariant orig full tech d) = tech"
  by (simp_all add: new_DomainVariant_def)

lemma add_all_Cons_cases:
  assumes "add_all rt self ((n, t, tech, d) # cs) = (vs, self')"
  obtains
    (skip) "add_all rt self cs = (vs, self')"
  | (emit) full ws where
      "full = strip (lower rt n) @ S ''.'' @ strip (lower rt t)"
      "vs = new_DomainVariant (domain_name self @ S ''.'' @ tld self) full tech d # ws"
      "add_all rt (self\<lparr>generated_variants := finsert full (generated_variants self)\<rparr>) cs
         = (ws, self')"
      "full \<noteq> domain_name self @ S ''.'' @ tld self"
      "full |\<notin>| generated_variants self"
      "int (fcard (generated_variants self)) < max_variants (config self)"
proof -
  from add_variant_None_or_Some [of rt self n t tech d] show thesis
  proof
    assume "add_variant rt self n t tech d = (None, self)"
    with assms have "add_all rt self cs = (vs, self')" by simp
    then show thesis by (rule skip)
  next
    let ?full = "strip (lower rt n) @ S ''.'' @ strip (lower rt t)"
    assume some: "add_variant rt self n t tech d =
      (Some (new_DomainVariant (domain_name self @ S ''.'' @ tld self) ?full tech d),
       self\<lparr>generated_variants := finsert ?full (generated_variants self)\<rparr>) \<and>
      ?full \<noteq> domain_name self @ S ''.'' @ tld self \<and>
      ?full |\<notin>| generated_variants self \<and>
      int (fcard (generated_variants self)) < max_variants (config self)"
    obtain ws where
      "add_all rt (self\<lparr>generated_variants := finsert ?full (generated_variants self)\<rparr>) cs
         = (ws, self')"
      "vs = new_DomainVariant (domain_name self @ S ''.'' @ tld self) ?full tech d # ws"
      using assms some by (auto split: prod.splits)
    with some show thesis
      by (intro emit [of ?full ws]) simp_all
  qed
qed

lemma add_all_fields:
  "add_all rt self cs = (vs, self') \<Longrightarrow>
   config self' = config self \<and> domain_name self' = domain_name self \<and> tld self' = tld self"
proof (induction cs arbitrary: self vs)
  case Nil
  then show ?case by simp
next
  case (Cons c cs)
  obtain n t tech d where c: "c = (n, t, tech, d)"
    by (cases c) auto
  from Cons.prems [unfolded c] show ?case
  proof (cases rule: add_all_Cons_cases)
    case skip
    then show ?thesis by (rule Cons.IH)
  next
    case (emit full ws)
    from Cons.IH [OF emit(3)] show ?thesis by simp
  qed
qed

lemma add_all_card:
  "add_all rt self cs = (vs, self') \<Longrightarrow>
   fcard (generated_variants self') = fcard (generated_variants self) + length vs"
proof (induction cs arbitrary: self vs)
  case Nil
  then show ?case by simp
next
  case (Cons c cs)
  obtain n t tech d where c: "c = (n, t, tech, d)"
    by (cases c) auto
  from Cons.prems [unfolded c] show ?case
  proof (cases rule: add_all_Cons_cases)
    case skip
    then show ?thesis by (rule Cons.IH)
  next
    case (emit full ws)
    from emit(5) have "fcard (finsert full (generated_variants self)) = Suc (fcard (generated_variants self))"
      by (simp add: fcard_finsert_disjoint)
    with Cons.IH [OF emit(3)] emit(2) show ?thesis by simp
  qed
qed

lemma add_all_bound:
  "add_all rt self cs = (vs, self') \<Longrightarrow>
   int (fcard (generated_variants self'))
     \<le> max (int (fcard (generated_variants self))) (max_variants (config self))"
proof (induction cs arbitrary: self vs)
  case Nil
  then show ?case by simp
next
  case (Cons c cs)
  obtain n t tech d where c: "c = (n, t, tech, d)"
    by (cases c) auto
  from Cons.prems [unfolded c] show ?case
  proof (cases rule: add_all_Cons_cases)
    case skip
    then show ?thesis by (rule Cons.IH)
  next
    case (emit full ws)
    from emit(5) have "fcard (finsert full (generated_variants self)) = Suc (fcard (generated_variants self))"
      by (simp add: fcard_finsert_disjoint)
    with Cons.IH [OF emit(3)] emit(6) show ?thesis by simp
  qed
qed

lemma add_all_fresh:
  "add_all rt self cs = (vs, self') \<Longrightarrow> v \<in> set vs \<Longrightarrow>
   variant_domain v |\<notin>| generated_variants self \<and>
   variant_domain v \<noteq> domain_name self @ S ''.'' @ tld self"
proof (induction cs arbitrary: self vs)
  case Nil
  then show ?case by simp
next
  case (Cons c cs)
  obtain n t tech d where c: "c = (n, t, tech, d)"
    by (cases c) auto
  from Cons.prems(1) [unfolded c] show ?case
  proof (cases rule: add_all_Cons_cases)
    case skip
    then show ?thesis using Cons.prems(2) by (rule Cons.IH)
  next
    case (emit full ws)
    show ?thesis
    proof (cases "v \<in> set ws")
      case True
      from Cons.IH [OF emit(3) True] show ?thesis by simp
    next
      case False
      with Cons.prems(2) emit(2) have "variant_domain v = full" by auto
      with emit(4,5) show ?thesis by simp
    qed
  qed
qed

lemma add_all_distinct:
  "add_all rt self cs = (vs, self') \<Longrightarrow> distinct (map variant_domain vs)"
proof (induction cs arbitrary: self vs)
  case Nil
  then show ?case by simp
next
  case (Cons c cs)
  obtain n t tech d where c: "c = (n, t, tech, d)"
    by (cases c) auto
  from Cons.prems(1) [unfolded c] show ?case
  proof (cases rule: add_all_Cons_cases)
    case skip
    then show ?thesis by (rule Cons.IH)
  next
    case (emit full ws)
    have "full \<noteq> variant_domain w" if "w \<in> set ws" for w
      using add_all_fresh [OF emit(3) that] by auto
    with Cons.IH [OF emit(3)] emit(2) show ?thesis by auto
  qed
qed

lemma add_all_append:
  "add_all rt self (cs1 @ cs2) =
     (case add_all rt self cs1 of
        (vs1, self1) \<Rightarrow> (case add_all rt self1 cs2 of (vs2, self2) \<Rightarrow> (vs1 @ vs2, self2)))"
proof (induction cs1 arbitrary: self)
  case Nil
  then show ?case by (simp split: prod.splits)
next
  case (Cons c cs1)
  obtain n t tech d where c: "c = (n, t, tech, d)"
    by (cases c) auto
  show ?case
    unfolding c by (simp add: Cons.IH split: prod.splits option.splits)
qed

lemma add_all_at_cap:
  "max_variants (config self) \<le> int (fcard (generated_variants self)) \<Longrightarrow>
   add_all rt self cs = ([], self)"
proof (induction cs)
  case Nil
  then show ?case by simp
next
  case (Cons c cs)
  obtain n t tech d where c: "c = (n, t, tech, d)"
    by (cases c) auto
  from Cons show ?case
    unfolding c by (simp add: add_variant_cap)
qed

lemma add_all_tags:
  "add_all rt self cs = (vs, self') \<Longrightarrow> v \<in> set vs \<Longrightarrow>
   technique v \<in> set (map candidate_technique cs)"
proof (induction cs arbitrary: self vs)
  case Nil
  then show ?case by simp
next
  case (Cons c cs)
  obtain n t tech d where c: "c = (n, t, tech, d)"
    by (cases c) auto
  from Cons.prems(1) [unfolded c] show ?case
  proof (cases rule: add_all_Cons_cases)
    case skip
    from Cons.IH [OF skip Cons.prems(2)] show ?thesis by simp
  next
    case (emit full ws)
    show ?thesis
    proof (cases "v \<in> set ws")
      case True
      from Cons.IH [OF emit(3) True] show ?thesis by simp
    next
      case False
      with Cons.prems(2) emit(2) have "technique v = tech" by auto
      then show ?thesis by (simp add: c candidate_technique_def)
    qed
  qed
qed

lemma getattr_generate_candidates:
  "(case getattr_generate t of None \<Rightarrow> ([], self) | Some meth \<Rightarrow> meth rt self) =
   add_all rt self (technique_candidates rt (domain_name self) (tld self) t)"
  by (simp add: getattr_generate_def technique_candidates_def
      generate_homograph_def generate_leetspeak_def generate_typo_def generate_phonetic_def
      generate_repetition_def generate_omission_def generate_insertion_def
      generate_transposition_def generate_hyphenation_def generate_tld_def generate_prefix_def
      generate_suffix_def generate_vowel_swap_def generate_double_char_def
      generate_bitsquatting_def generate_subdomain_def)

lemma run_techniques_candidates:
  "run_techniques rt self ts =
   add_all rt self (all_candidates rt (domain_name self) (tld self) ts)"
proof (induction ts arbitrary: self)
  case Nil
  then show ?case by (simp add: all_candidates_def)
next
  case (Cons t ts)
  obtain rs self1 where first:
    "add_all rt self (technique_candidates rt (domain_name self) (tld self) t) = (rs, self1)"
    by (cases "add_all rt self (technique_candidates rt (domain_name self) (tld self) t)") auto
  from add_all_fields [OF first]
  have same: "domain_name self1 = domain_name self" "tld self1 = tld self"
    by simp_all
  obtain vs self2 where rest: "run_techniques rt self1 ts = (vs, self2)"
    by (cases "run_techniques rt self1 ts") auto
  have "run_techniques rt self (t # ts) = (rs @ vs, self2)"
  proof (cases "getattr_generate t")
    case None
    with getattr_generate_candidates [where t = t and self = self and rt = rt] first have "rs = []" "self1 = self"
      by simp_all
    with None rest show ?thesis by simp
  next
    case (Some meth)
    with getattr_generate_candidates [where t = t and self = self and rt = rt] first
    have "meth rt self = (rs, self1)"
      by simp
    with Some rest show ?thesis by simp
  qed
  moreover have "add_all rt self (all_candidates rt (domain_name self) (tld self) (t # ts))
      = (rs @ vs, self2)"
    using first rest Cons.IH [of self1] same
    by (simp add: all_candidates_def add_all_append)
  ultimately show ?case by simp
qed

lemma confusable_candidates_tags:
  "c \<in> set (confusable_candidates f name tld0 ics) \<Longrightarrow> candidate_technique c = S ''homograph''"
proof (induction ics)
  case Nil
  then show ?case by simp
next
  case (Cons ic ics)
  obtain i ch where ic: "ic = (i, ch)"
    by (cases ic) auto
  from Cons show ?case
    unfolding ic by (auto simp: candidate_technique_def split: option.splits if_splits)
qed

lemma homograph_candidates_tags:
  "c \<in> set (homograph_candidates rt name tld0) \<Longrightarrow> candidate_technique c = S ''homograph''"
  unfolding homograph_candidates_def by (auto simp: candidate_technique_def split: option.splits dest: confusable_candidates_tags)

lemma leetspeak_candidates_tags:
  "c \<in> set (leetspeak_candidates name tld0) \<Longrightarrow> candidate_technique c = S ''leetspeak''"
  unfolding leetspeak_candidates_def by (auto simp: candidate_technique_def split: option.splits)

lemma typo_candidates_tags:
  "c \<in> set (typo_candidates name tld0) \<Longrightarrow> candidate_technique c = S ''typo''"
  unfolding typo_candidates_def by (auto simp: candidate_technique_def split: option.splits dest: in_set_takeD)

lemma phonetic_candidates_tags:
  "c \<in> set (phonetic_candidates name tld0) \<Longrightarrow> candidate_technique c = S ''phonetic''"
  unfolding phonetic_candidates_def by (auto simp: candidate_technique_def split: if_splits)

lemma repetition_candidates_tags:
  "c \<in> set (repetition_candidates rt name tld0) \<Longrightarrow> candidate_technique c = S ''repetition''"
  unfolding repetition_candidates_def by (auto simp: candidate_technique_def split: if_splits)

lemma omission_candidates_tags:
  "c \<in> set (omission_candidates name tld0) \<Longrightarrow> candidate_technique c = S ''omission''"
  unfolding omission_candidates_def by (auto simp: candidate_technique_def Let_def split: if_splits)

lemma insertion_candidates_tags:
  "c \<in> set (insertion_candidates name tld0) \<Longrightarrow> candidate_technique c = S ''insertion''"
  unfolding insertion_candidates_def by (auto simp: candidate_technique_def)

lemma transposition_candidates_tags:
  "c \<in> set (transposition_candidates name tld0) \<Longrightarrow> candidate_technique c = S ''transposition''"
  unfolding transposition_candidates_def by (auto simp: candidate_technique_def)

lemma hyphenation_candidates_tags:
  "c \<in> set (hyphenation_candidates name tld0) \<Longrightarrow> candidate_technique c = S ''hyphenation''"
  unfolding hyphenation_candidates_def by (auto simp: candidate_technique_def split: if_splits)

lemma tld_candidates_tags:
  "c \<in> set (tld_candidates name tld0) \<Longrightarrow> candidate_technique c = S ''tld_swap''"
  unfolding tld_candidates_def by (auto simp: candidate_technique_def split: if_splits)

lemma prefix_candidates_tags:
  "c \<in> set (prefix_candidates name tld0) \<Longrightarrow> candidate_technique c = S ''prefix''"
  unfolding prefix_candidates_def by (auto simp: candidate_technique_def)

lemma suffix_candidates_tags:
  "c \<in> set (suffix_candidates name tld0) \<Longrightarrow> candidate_technique c = S ''suffix''"
  unfolding suffix_candidates_def by (auto simp: candidate_technique_def)

lemma vowel_swap_candidates_tags:
  "c \<in> set (vowel_swap_candidates name tld0) \<Longrightarrow> candidate_technique c = S ''vowel_swap''"
  unfolding vowel_swap_candidates_def by (auto simp: candidate_technique_def split: if_splits)

lemma double_char_candidates_tags:
  "c \<in> set (double_char_candidates name tld0) \<Longrightarrow> candidate_technique c = S ''double_char''"
  unfolding double_char_candidates_def by (auto simp: candidate_technique_def split: if_splits)

lemma bitsquatting_candidates_tags:
  "c \<in> set (bitsquatting_candidates name tld0) \<Longrightarrow> candidate_technique c = S ''bitsquatting''"
  unfolding bitsquatting_candidates_def by (auto simp: candidate_technique_def Let_def split: if_splits)

lemma subdomain_candidates_tags:
  "c \<in> set (subdomain_candidates name) \<Longrightarrow> candidate_technique c = S ''subdomain''"
  unfolding subdomain_candidates_def by (auto simp: candidate_technique_def)

lemma technique_candidates_tags:
  "c \<in> set (technique_candidates rt name tld0 t) \<Longrightarrow>
   candidate_technique c \<in>
     {S ''homograph'', S ''leetspeak'', S ''typo'', S ''phonetic'', S ''repetition'',
      S ''omission'', S ''insertion'', S ''transposition'', S ''hyphenation'', S ''tld_swap'',
      S ''prefix'', S ''suffix'', S ''vowel_swap'', S ''double_char'', S ''bitsquatting'',
      S ''subdomain''}"
  unfolding technique_candidates_def
  by (auto split: if_splits
      dest: homograph_candidates_tags leetspeak_candidates_tags typo_candidates_tags
        phonetic_candidates_tags repetition_candidates_tags omission_candidates_tags
        insertion_candidates_tags transposition_candidates_tags hyphenation_candidates_tags
        tld_candidates_tags prefix_candidates_tags suffix_candidates_tags
        vowel_swap_candidates_tags double_char_candidates_tags bitsquatting_candidates_tags
        subdomain_candidates_tags)

lemma all_candidates_tags:
  "c \<in> set (all_candidates rt name tld0 ts) \<Longrightarrow>
   candidate_technique c \<in>
     {S ''homograph'', S ''leetspeak'', S ''typo'', S ''phonetic'', S ''repetition'',
      S ''omission'', S ''insertion'', S ''transposition'', S ''hyphenation'', S ''tld_swap'',
      S ''prefix'', S ''suffix'', S ''vowel_swap'', S ''double_char'', S ''bitsquatting'',
      S ''subdomain''}"
  unfolding all_candidates_def
  by (auto simp only: set_concat set_map dest!: technique_candidates_tags)

lemma generate_all_candidates:
  "\<exists>ts. generate_all rt self = add_all rt self (all_candidates rt (domain_name self) (tld self) ts)"
  unfolding generate_all_def by (blast intro: run_techniques_candidates)

subsection \<open>Evaluating the generator on a concrete target\<close>

lemmas generator_eval = generate_all_def getattr_generate_def add_variant_def
  new_AnalysisConfig_def new_DomainVariant_def offline_runtime_def Let_def
  fcard_finsert_if fcard_fempty

subsection \<open>Uniqueness and non-identity\<close>

text \<open>
  C2. Whatever the configuration, the parsed target and the set of names the generator
  has already emitted, the \<open>variant_domain\<close> strings of the variants one call of
  \<open>generate_all\<close> returns are pairwise distinct, and none of them is the original
  \<open>name.tld\<close>.
\<close>

theorem generate_all_unique:
  "distinct (map variant_domain (fst (generate_all rt self))) \<and>
   domain_name self @ S ''.'' @ tld self \<notin> set (map variant_domain (fst (generate_all rt self)))"
proof -
  obtain ts where run:
    "generate_all rt self = add_all rt self (all_candidates rt (domain_name self) (tld self) ts)"
    using generate_all_candidates by blast
  obtain vs self' where res:
    "add_all rt self (all_candidates rt (domain_name self) (tld self) ts) = (vs, self')"
    by (cases "add_all rt self (all_candidates rt (domain_name self) (tld self) ts)") auto
  have "distinct (map variant_domain vs)"
    using res by (rule add_all_distinct)
  moreover have "domain_name self @ S ''.'' @ tld self \<notin> set (map variant_domain vs)"
  proof
    assume "domain_name self @ S ''.'' @ tld self \<in> set (map variant_domain vs)"
    then obtain v where "v \<in> set vs" and "variant_domain v = domain_name self @ S ''.'' @ tld self"
      by auto
    with add_all_fresh [OF res, of v] show False
      by simp
  qed
  ultimately show ?thesis
    by (simp add: run res)
qed

text \<open>
  The run for \<open>ab.com\<close> with the techniques omission and transposition: three
  variants, and \<open>ab.com\<close> is not among them.
\<close>

lemma generate_all_example:
  "HomographGenerator_init offline_runtime
     ((new_AnalysisConfig (S ''ab.com''))\<lparr>techniques := [S ''omission'', S ''transposition'']\<rparr>)
   = Inr \<lparr>config = (new_AnalysisConfig (S ''ab.com''))\<lparr>techniques := [S ''omission'', S ''transposition'']\<rparr>,
          domain_name = S ''ab'', tld = S ''com'', generated_variants = {||}\<rparr> \<and>
   map variant_domain (fst (generate_all offline_runtime
     \<lparr>config = (new_AnalysisConfig (S ''ab.com''))\<lparr>techniques := [S ''omission'', S ''transposition'']\<rparr>,
      domain_name = S ''ab'', tld = S ''com'', generated_variants = {||}\<rparr>))
   = [S ''b.com'', S ''a.com'', S ''ba.com'']"
  by (simp add: HomographGenerator_init_def parse_domain_def clean_domain_def generator_eval
      string_eval
      generate_omission_def omission_candidates_def
      generate_transposition_def transposition_candidates_def)

subsection \<open>The cap\<close>

text \<open>
  C3 (as amended). With \<open>max_variants = N\<close>, the list \<open>generate_all\<close> returns has at
  most \<open>max(N, 0)\<close> elements, so at most \<open>N\<close> when \<open>N\<close> is not negative. And
  when a fresh generator (nothing emitted yet) has made any sequence of
  \<open>_add_variant\<close> calls that emitted \<open>N\<close> variants or more, every later
  \<open>_add_variant\<close> call returns \<open>None\<close> and leaves the generator as it is, and any
  further techniques emit nothing.
\<close>

theorem generate_all_cap:
  "int (length (fst (generate_all rt self))) \<le> max 0 (max_variants (config self)) \<and>
   (generated_variants self = {||} \<and> add_all rt self calls = (emitted, self') \<and>
    max_variants (config self) \<le> int (length emitted) \<longrightarrow>
      add_variant rt self' n t tech d = (None, self') \<and>
      run_techniques rt self' ts = ([], self'))"
proof
  obtain us where run:
    "generate_all rt self = add_all rt self (all_candidates rt (domain_name self) (tld self) us)"
    using generate_all_candidates by blast
  obtain vs self1 where res:
    "add_all rt self (all_candidates rt (domain_name self) (tld self) us) = (vs, self1)"
    by (cases "add_all rt self (all_candidates rt (domain_name self) (tld self) us)") auto
  from add_all_card [OF res] add_all_bound [OF res]
  have "int (length vs) \<le> max 0 (max_variants (config self))"
    by linarith
  then show "int (length (fst (generate_all rt self))) \<le> max 0 (max_variants (config self))"
    by (simp add: run res)
next
  show "generated_variants self = {||} \<and> add_all rt self calls = (emitted, self') \<and>
    max_variants (config self) \<le> int (length emitted) \<longrightarrow>
      add_variant rt self' n t tech d = (None, self') \<and>
      run_techniques rt self' ts = ([], self')"
  proof
    assume a: "generated_variants self = {||} \<and> add_all rt self calls = (emitted, self') \<and>
      max_variants (config self) \<le> int (length emitted)"
    then have calls: "add_all rt self calls = (emitted, self')"
      by simp
    from add_all_card [OF calls] a
    have "fcard (generated_variants self') = length emitted"
      by (simp add: fcard_fempty)
    with a add_all_fields [OF calls]
    have full: "max_variants (config self') \<le> int (fcard (generated_variants self'))"
      by simp
    then have "add_variant rt self' n t tech d = (None, self')"
      by (rule add_variant_cap)
    moreover from full have "run_techniques rt self' ts = ([], self')"
      by (simp add: run_techniques_candidates add_all_at_cap)
    ultimately show "add_variant rt self' n t tech d = (None, self') \<and>
      run_techniques rt self' ts = ([], self')"
      by simp
  qed
qed

text \<open>
  For \<open>ab.com\<close> with a cap of one: the first omission call emits \<open>b.com\<close>; the
  second call then returns \<open>None\<close>, and so does the whole transposition technique.
\<close>

theorem generate_all_cap_witness:
  "generated_variants
     \<lparr>config = (new_AnalysisConfig (S ''ab.com''))\<lparr>max_variants := 1\<rparr>,
      domain_name = S ''ab'', tld = S ''com'', generated_variants = {||}\<rparr> = {||} \<and>
   add_all offline_runtime
     \<lparr>config = (new_AnalysisConfig (S ''ab.com''))\<lparr>max_variants := 1\<rparr>,
      domain_name = S ''ab'', tld = S ''com'', generated_variants = {||}\<rparr>
     [(S ''b'', S ''com'', S ''omission'', [])]
   = ([new_DomainVariant (S ''ab.com'') (S ''b.com'') (S ''omission'') []],
      \<lparr>config = (new_AnalysisConfig (S ''ab.com''))\<lparr>max_variants := 1\<rparr>,
       domain_name = S ''ab'', tld = S ''com'', generated_variants = {|S ''b.com''|}\<rparr>) \<and>
   add_variant offline_runtime
     \<lparr>config = (new_AnalysisConfig (S ''ab.com''))\<lparr>max_variants := 1\<rparr>,
      domain_name = S ''ab'', tld = S ''com'', generated_variants = {|S ''b.com''|}\<rparr>
     (S ''a'') (S ''com'') (S ''omission'') []
   = (None,
      \<lparr>config = (new_AnalysisConfig (S ''ab.com''))\<lparr>max_variants := 1\<rparr>,
       domain_name = S ''ab'', tld = S ''com'', generated_variants = {|S ''b.com''|}\<rparr>) \<and>
   run_techniques offline_runtime
     \<lparr>config = (new_AnalysisConfig (S ''ab.com''))\<lparr>max_variants := 1\<rparr>,
      domain_name = S ''ab'', tld = S ''com'', generated_variants = {|S ''b.com''|}\<rparr>
     [S ''transposition'']
   = ([],
      \<lparr>config = (new_AnalysisConfig (S ''ab.com''))\<lparr>max_variants := 1\<rparr>,
       domain_name = S ''ab'', tld = S ''com'', generated_variants = {|S ''b.com''|}\<rparr>)"
proof -
  have calls: "add_all offline_runtime
     \<lparr>config = (new_AnalysisConfig (S ''ab.com''))\<lparr>max_variants := 1\<rparr>,
      domain_name = S ''ab'', tld = S ''com'', generated_variants = {||}\<rparr>
     [(S ''b'', S ''com'', S ''omission'', [])]
   = ([new_DomainVariant (S ''ab.com'') (S ''b.com'') (S ''omission'') []],
      \<lparr>config = (new_AnalysisConfig (S ''ab.com''))\<lparr>max_variants := 1\<rparr>,
       domain_name = S ''ab'', tld = S ''com'', generated_variants = {|S ''b.com''|}\<rparr>)"
    by (simp add: generator_eval string_eval)
  show ?thesis
    using calls
      generate_all_cap [of offline_runtime
        "\<lparr>config = (new_AnalysisConfig (S ''ab.com''))\<lparr>max_variants := 1\<rparr>,
          domain_name = S ''ab'', tld = S ''com'', generated_variants = {||}\<rparr>"
        "[(S ''b'', S ''com'', S ''omission'', [])]"
        "[new_DomainVariant (S ''ab.com'') (S ''b.com'') (S ''omission'') []]"
        "\<lparr>config = (new_AnalysisConfig (S ''ab.com''))\<lparr>max_variants := 1\<rparr>,
          domain_name = S ''ab'', tld = S ''com'', generated_variants = {|S ''b.com''|}\<rparr>"
        "S ''a''" "S ''com''" "S ''omission''" "[]" "[S ''transposition'']"]
    by (simp add: new_AnalysisConfig_def)
qed

text \<open>
  The claim as it is written fails for a negative cap: with \<open>max_variants = -1\<close>
  nothing is emitted, and the length 0 of the result is not at most \<open>-1\<close>.
\<close>

theorem generate_all_cap_counterexample:
  "fst (generate_all offline_runtime
     \<lparr>config = (new_AnalysisConfig (S ''ab.com''))\<lparr>max_variants := - 1, techniques := [S ''omission'']\<rparr>,
      domain_name = S ''ab'', tld = S ''com'', generated_variants = {||}\<rparr>) = [] \<and>
   \<not> int (length (fst (generate_all offline_runtime
     \<lparr>config = (new_AnalysisConfig (S ''ab.com''))\<lparr>max_variants := - 1, techniques := [S ''omission'']\<rparr>,
      domain_name = S ''ab'', tld = S ''com'', generated_variants = {||}\<rparr>)))
     \<le> max_variants ((new_AnalysisConfig (S ''ab.com''))\<lparr>max_variants := - 1, techniques := [S ''omission'']\<rparr>)"
  by (simp add: generator_eval string_eval generate_omission_def omission_candidates_def)

subsection \<open>Technique tags\<close>

text \<open>
  C5 (as amended). Every variant \<open>generate_all\<close> returns carries one of sixteen tags:
  the names of the techniques, except that the variants of the technique \<open>tld\<close> are
  tagged \<open>tld_swap\<close>.
\<close>

theorem generate_all_technique_tags:
  "set (map technique (fst (generate_all rt self))) \<subseteq>
     {S ''homograph'', S ''leetspeak'', S ''typo'', S ''phonetic'', S ''repetition'',
      S ''omission'', S ''insertion'', S ''transposition'', S ''hyphenation'', S ''tld_swap'',
      S ''prefix'', S ''suffix'', S ''vowel_swap'', S ''double_char'', S ''bitsquatting'',
      S ''subdomain''}"
proof -
  obtain ts where run:
    "generate_all rt self = add_all rt self (all_candidates rt (domain_name self) (tld self) ts)"
    using generate_all_candidates by blast
  obtain vs self' where res:
    "add_all rt self (all_candidates rt (domain_name self) (tld self) ts) = (vs, self')"
    by (cases "add_all rt self (all_candidates rt (domain_name self) (tld self) ts)") auto
  have "technique v \<in>
     {S ''homograph'', S ''leetspeak'', S ''typo'', S ''phonetic'', S ''repetition'',
      S ''omission'', S ''insertion'', S ''transposition'', S ''hyphenation'', S ''tld_swap'',
      S ''prefix'', S ''suffix'', S ''vowel_swap'', S ''double_char'', S ''bitsquatting'',
      S ''subdomain''}" if "v \<in> set vs" for v
  proof -
    from add_all_tags [OF res that] obtain c
      where "c \<in> set (all_candidates rt (domain_name self) (tld self) ts)"
        and "technique v = candidate_technique c"
      by auto
    with all_candidates_tags [of c rt "domain_name self" "tld self" ts] show ?thesis
      by simp
  qed
  then show ?thesis
    by (auto simp: run res)
qed

text \<open>
  The claim as it is written fails for the technique \<open>tld\<close>: for \<open>example.com\<close>
  with that technique alone (and a cap of two) both variants, \<open>example.net\<close> and
  \<open>example.org\<close>, are tagged \<open>tld_swap\<close>, which is none of the sixteen names.
\<close>

theorem generate_all_tld_tag_counterexample:
  "map (\<lambda>v. (variant_domain v, technique v)) (fst (generate_all offline_runtime
     \<lparr>config = (new_AnalysisConfig (S ''example.com''))\<lparr>max_variants := 2, techniques := [S ''tld'']\<rparr>,
      domain_name = S ''example'', tld = S ''com'', generated_variants = {||}\<rparr>))
   = [(S ''example.net'', S ''tld_swap''), (S ''example.org'', S ''tld_swap'')] \<and>
   S ''tld_swap'' \<notin>
     {S ''homograph'', S ''leetspeak'', S ''typo'', S ''phonetic'', S ''repetition'',
      S ''omission'', S ''insertion'', S ''transposition'', S ''hyphenation'', S ''tld'',
      S ''prefix'', S ''suffix'', S ''vowel_swap'', S ''double_char'', S ''bitsquatting'',
      S ''subdomain''}"
  by (simp add: generator_eval string_eval generate_tld_def tld_candidates_def
      ALTERNATIVE_TLDS_def)

section \<open>Bitsquatting\<close>

lemma add_all_origin:
  "add_all rt self cs = (vs, self') \<Longrightarrow> v \<in> set vs \<Longrightarrow>
   \<exists>n t tech d. (n, t, tech, d) \<in> set cs \<and>
     variant_domain v = strip (lower rt n) @ S ''.'' @ strip (lower rt t) \<and>
     technique v = tech"
proof (induction cs arbitrary: self vs)
  case Nil
  then show ?case by simp
next
  case (Cons c cs)
  obtain n t tech d where c: "c = (n, t, tech, d)"
    by (cases c) auto
  from Cons.prems(1) [unfolded c] show ?case
  proof (cases rule: add_all_Cons_cases)
    case skip
    from Cons.IH [OF skip Cons.prems(2)] show ?thesis by auto
  next
    case (emit full ws)
    show ?thesis
    proof (cases "v \<in> set ws")
      case True
      from Cons.IH [OF emit(3) True] show ?thesis by auto
    next
      case False
      with Cons.prems(2) emit(2)
      have "v = new_DomainVariant (domain_name self @ S ''.'' @ tld self) full tech d"
        by auto
      with emit(1) show ?thesis
        unfolding c by auto
    qed
  qed
qed

lemma dropWhile_none: "list_all (\<lambda>x. \<not> P x) xs \<Longrightarrow> dropWhile P xs = xs"
  by (cases xs) simp_all

lemma strip_lower_lowercase:
  assumes "list_all (\<lambda>c. 97 \<le> c \<and> c \<le> 122) s"
  shows "strip (lower rt s) = s"
proof -
  from assms have ascii: "list_all (\<lambda>c. c < 128) s"
    by (induction s) auto
  from assms have "map ascii_lower s = s"
    by (induction s) (auto simp: ascii_lower_def)
  with ascii have low: "lower rt s = s"
    by (simp add: lower_def)
  from assms have nospace: "list_all (\<lambda>c. \<not> isspace c) s"
    by (induction s) (auto simp: isspace_def)
  then have "list_all (\<lambda>c. \<not> isspace c) (rev s)"
    by (simp add: list_all_iff)
  with nospace show ?thesis
    by (simp add: strip_def low dropWhile_none)
qed

lemma bitsquatting_candidates_shape:
  assumes "(n, t, tech, d) \<in> set (bitsquatting_candidates name tld0)"
  shows "\<exists>i bit. i < length name \<and> bit < 8 \<and> t = tld0 \<and>
     n = name[i := name ! i XOR push_bit bit 1] \<and>
     97 \<le> name ! i XOR push_bit bit 1 \<and> name ! i XOR push_bit bit 1 \<le> 122 \<and>
     name ! i XOR push_bit bit 1 \<noteq> name ! i"
proof -
  from assms obtain i c bit where ic: "(i, c) \<in> set (enumerate 0 name)"
    and bit: "bit \<in> set [0..<8]"
    and mem: "(n, t, tech, d) \<in> set (let flipped = c XOR push_bit bit 1 in
         if 97 \<le> flipped \<and> flipped \<le> 122
         then (if flipped \<noteq> c
               then [(subst_at name i [flipped], tld0, S ''bitsquatting'',
                      S ''Bit flip: '' @ q [c] @ S '' -> '' @ q [flipped])]
               else [])
         else [])"
    unfolding bitsquatting_candidates_def by (auto simp del: upt_rec_numeral set_upt)
  from ic have i: "i < length name" and c: "c = name ! i"
    by (auto simp: in_set_enumerate_eq)
  from i have upd: "subst_at name i [x] = name[i := x]" for x
    by (simp add: subst_at_def upd_conv_take_nth_drop)
  from bit have "bit < 8" by simp
  with mem i c upd show ?thesis
    by (auto simp: Let_def split: if_splits)
qed

text \<open>
  C8. When the name consists of lowercase ASCII letters, every variant of the
  bitsquatting technique is the name with the character at one position \<open>i\<close>
  replaced (followed by the dot and the TLD as \<open>_add_variant\<close> cleans it): the new
  character differs from the old one, is a lowercase ASCII letter, and is the old
  one with one of its bits 0 to 7 flipped.
\<close>

theorem bitsquatting_one_bit:
  assumes "list_all (\<lambda>c. 97 \<le> c \<and> c \<le> 122) (domain_name self)"
    and "v \<in> set (fst (generate_bitsquatting rt self))"
  shows "\<exists>i bit flipped.
     i < length (domain_name self) \<and> bit < 8 \<and>
     flipped = domain_name self ! i XOR push_bit bit 1 \<and>
     flipped \<noteq> domain_name self ! i \<and> 97 \<le> flipped \<and> flipped \<le> 122 \<and>
     variant_domain v =
       (domain_name self)[i := flipped] @ S ''.'' @ strip (lower rt (tld self)) \<and>
     technique v = S ''bitsquatting''"
proof -
  obtain vs self' where res:
    "add_all rt self (bitsquatting_candidates (domain_name self) (tld self)) = (vs, self')"
    by (cases "add_all rt self (bitsquatting_candidates (domain_name self) (tld self))") auto
  with assms(2) have "v \<in> set vs"
    by (simp add: generate_bitsquatting_def)
  from add_all_origin [OF res this] obtain n t tech d
    where cand: "(n, t, tech, d) \<in> set (bitsquatting_candidates (domain_name self) (tld self))"
      and dom: "variant_domain v = strip (lower rt n) @ S ''.'' @ strip (lower rt t)"
      and tech: "technique v = tech"
    by blast
  from bitsquatting_candidates_shape [OF cand] obtain i bit
    where i: "i < length (domain_name self)" and bit: "bit < 8" and t: "t = tld self"
      and n: "n = (domain_name self)[i := domain_name self ! i XOR push_bit bit 1]"
      and lo: "97 \<le> domain_name self ! i XOR push_bit bit 1"
      and hi: "domain_name self ! i XOR push_bit bit 1 \<le> 122"
      and ne: "domain_name self ! i XOR push_bit bit 1 \<noteq> domain_name self ! i"
    by blast
  have "97 \<le> c \<and> c \<le> 122" if "c \<in> set n" for c
  proof -
    from that have "c \<in> insert (domain_name self ! i XOR push_bit bit 1) (set (domain_name self))"
      unfolding n by (rule set_update_subset_insert [THEN subsetD])
    with assms(1) lo hi show ?thesis
      by (auto simp: list_all_iff)
  qed
  then have "list_all (\<lambda>c. 97 \<le> c \<and> c \<le> 122) n"
    by (simp add: list_all_iff)
  then have clean: "strip (lower rt n) = n"
    by (rule strip_lower_lowercase)
  from bitsquatting_candidates_tags [OF cand] have "tech = S ''bitsquatting''"
    by (simp add: candidate_technique_def)
  with tech have tag: "technique v = S ''bitsquatting''"
    by simp
  from dom have dom': "variant_domain v =
      (domain_name self)[i := domain_name self ! i XOR push_bit bit 1]
        @ S ''.'' @ strip (lower rt (tld self))"
    unfolding clean unfolding n t .
  show ?thesis
    using i bit ne lo hi dom' tag
    by (intro exI [of _ i] exI [of _ bit]
        exI [of _ "domain_name self ! i XOR push_bit bit 1"] conjI refl)
qed

text \<open>
  For \<open>ab.com\<close> and a cap of one the technique returns \<open>cb.com\<close>: \<open>a\<close> (97)
  with bit 1 flipped is \<open>c\<close> (99).
\<close>

lemma upt_0_8: "[0..<8] = [0, 1, 2, 3, 4, 5, 6, 7 :: nat]"
  by (simp add: upt_rec)

theorem bitsquatting_one_bit_witness:
  "list_all (\<lambda>c. 97 \<le> c \<and> c \<le> 122) (S ''ab'') \<and>
   fst (generate_bitsquatting offline_runtime
     \<lparr>config = (new_AnalysisConfig (S ''ab.com''))\<lparr>max_variants := 1\<rparr>,
      domain_name = S ''ab'', tld = S ''com'', generated_variants = {||}\<rparr>)
     = [new_DomainVariant (S ''ab.com'') (S ''cb.com'') (S ''bitsquatting'')
         (S ''Bit flip: '' @ q (S ''a'') @ S '' -> '' @ q (S ''c''))] \<and>
   (\<exists>i bit flipped.
     i < length (S ''ab'') \<and> bit < 8 \<and>
     flipped = S ''ab'' ! i XOR push_bit bit 1 \<and>
     flipped \<noteq> S ''ab'' ! i \<and> 97 \<le> flipped \<and> flipped \<le> 122 \<and>
     S ''cb.com'' = (S ''ab'')[i := flipped] @ S ''.'' @ strip (lower offline_runtime (S ''com'')))"
proof -
  have run: "fst (generate_bitsquatting offline_runtime
     \<lparr>config = (new_AnalysisConfig (S ''ab.com''))\<lparr>max_variants := 1\<rparr>,
      domain_name = S ''ab'', tld = S ''com'', generated_variants = {||}\<rparr>)
     = [new_DomainVariant (S ''ab.com'') (S ''cb.com'') (S ''bitsquatting'')
         (S ''Bit flip: '' @ q (S ''a'') @ S '' -> '' @ q (S ''c''))]"
    by (simp add: generate_bitsquatting_def bitsquatting_candidates_def generator_eval
        string_eval upt_0_8)
  have lowercase: "list_all (\<lambda>c. 97 \<le> c \<and> c \<le> 122) (S ''ab'')"
    by (simp add: S_def)
  have "\<exists>i bit flipped.
     i < length (S ''ab'') \<and> bit < 8 \<and>
     flipped = S ''ab'' ! i XOR push_bit bit 1 \<and>
     flipped \<noteq> S ''ab'' ! i \<and> 97 \<le> flipped \<and> flipped \<le> 122 \<and>
     S ''cb.com'' = (S ''ab'')[i := flipped] @ S ''.'' @ strip (lower offline_runtime (S ''com''))"
    using bitsquatting_one_bit [of
        "\<lparr>config = (new_AnalysisConfig (S ''ab.com''))\<lparr>max_variants := 1\<rparr>,
          domain_name = S ''ab'', tld = S ''com'', generated_variants = {||}\<rparr>"
        "new_DomainVariant (S ''ab.com'') (S ''cb.com'') (S ''bitsquatting'')
           (S ''Bit flip: '' @ q (S ''a'') @ S '' -> '' @ q (S ''c''))"
        offline_runtime]
      lowercase
    by (simp only: run HomographGenerator.simps new_DomainVariant_sel list.set insertI1
        simp_thms)
  with run lowercase show ?thesis
    by (simp only: simp_thms)
qed

section \<open>Trust buckets\<close>

text \<open>
  C1 (as amended). The bucket is a function of the age and the configured threshold
  alone: no age gives (unknown, 50); an age below 30 gives (critical, 95); from 30
  and below 90 (high_risk, 85); from 90 and below 180 (suspicious, 70); from 180 and
  below 365 (low_trust, 55); from 365 and below the threshold (moderate, 35); from
  365 and from the threshold on (established, 15). The hard-coded boundaries are
  tested first, so a threshold below 365 moves no boundary: ages below 365 keep
  their bucket, even when they have reached the threshold.
\<close>

theorem calculate_trust_level_table:
  "calculate_trust_level cfg None = (S ''unknown'', 50) \<and>
   (a < 30 \<longrightarrow> calculate_trust_level cfg (Some a) = (S ''critical'', 95)) \<and>
   (30 \<le> a \<and> a < 90 \<longrightarrow> calculate_trust_level cfg (Some a) = (S ''high_risk'', 85)) \<and>
   (90 \<le> a \<and> a < 180 \<longrightarrow> calculate_trust_level cfg (Some a) = (S ''suspicious'', 70)) \<and>
   (180 \<le> a \<and> a < 365 \<longrightarrow> calculate_trust_level cfg (Some a) = (S ''low_trust'', 55)) \<and>
   (365 \<le> a \<and> a < trust_threshold_days cfg \<longrightarrow>
      calculate_trust_level cfg (Some a) = (S ''moderate'', 35)) \<and>
   (365 \<le> a \<and> trust_threshold_days cfg \<le> a \<longrightarrow>
      calculate_trust_level cfg (Some a) = (S ''established'', 15))"
  by (simp add: calculate_trust_level_def)

text \<open>
  The boundaries of the default configuration (threshold 730): the bucket changes
  exactly between 29 and 30, 89 and 90, 179 and 180, 364 and 365, 729 and 730.
\<close>

theorem calculate_trust_level_table_witness:
  "calculate_trust_level (new_AnalysisConfig (S ''example.com'')) (Some 29) = (S ''critical'', 95) \<and>
   calculate_trust_level (new_AnalysisConfig (S ''example.com'')) (Some 30) = (S ''high_risk'', 85) \<and>
   calculate_trust_level (new_AnalysisConfig (S ''example.com'')) (Some 89) = (S ''high_risk'', 85) \<and>
   calculate_trust_level (new_AnalysisConfig (S ''example.com'')) (Some 90) = (S ''suspicious'', 70) \<and>
   calculate_trust_level (new_AnalysisConfig (S ''example.com'')) (Some 179) = (S ''suspicious'', 70) \<and>
   calculate_trust_level (new_AnalysisConfig (S ''example.com'')) (Some 180) = (S ''low_trust'', 55) \<and>
   calculate_trust_level (new_AnalysisConfig (S ''example.com'')) (Some 364) = (S ''low_trust'', 55) \<and>
   calculate_trust_level (new_AnalysisConfig (S ''example.com'')) (Some 365) = (S ''moderate'', 35) \<and>
   calculate_trust_level (new_AnalysisConfig (S ''example.com'')) (Some 729) = (S ''moderate'', 35) \<and>
   calculate_trust_level (new_AnalysisConfig (S ''example.com'')) (Some 730) = (S ''established'', 15)"
  using calculate_trust_level_table [of "new_AnalysisConfig (S ''example.com'')" 29]
    calculate_trust_level_table [of "new_AnalysisConfig (S ''example.com'')" 30]
    calculate_trust_level_table [of "new_AnalysisConfig (S ''example.com'')" 89]
    calculate_trust_level_table [of "new_AnalysisConfig (S ''example.com'')" 90]
    calculate_trust_level_table [of "new_AnalysisConfig (S ''example.com'')" 179]
    calculate_trust_level_table [of "new_AnalysisConfig (S ''example.com'')" 180]
    calculate_trust_level_table [of "new_AnalysisConfig (S ''example.com'')" 364]
    calculate_trust_level_table [of "new_AnalysisConfig (S ''example.com'')" 365]
    calculate_trust_level_table [of "new_AnalysisConfig (S ''example.com'')" 729]
    calculate_trust_level_table [of "new_AnalysisConfig (S ''example.com'')" 730]
  by (simp add: new_AnalysisConfig_def)

text \<open>
  The claim as it is written fails for a threshold below 365: with a threshold of
  100 days, an age of 200 days has reached the threshold and is still low_trust.
\<close>

theorem calculate_trust_level_threshold_counterexample:
  "trust_threshold_days ((new_AnalysisConfig (S ''example.com''))\<lparr>trust_threshold_days := 100\<rparr>) \<le> 200 \<and>
   calculate_trust_level ((new_AnalysisConfig (S ''example.com''))\<lparr>trust_threshold_days := 100\<rparr>)
     (Some 200) = (S ''low_trust'', 55) \<and>
   calculate_trust_level ((new_AnalysisConfig (S ''example.com''))\<lparr>trust_threshold_days := 100\<rparr>)
     (Some 200) \<noteq> (S ''established'', 15)"
  by (simp add: calculate_trust_level_def new_AnalysisConfig_def S_def)

section \<open>The analyzer\<close>

lemma get_whois_exception:
  "whois_whois rt = Some whois \<Longrightarrow> whois domain = WhoisException e \<Longrightarrow>
   get_whois rt domain = ((PyNone, PyNone, []), [WhoisQuery domain])"
  by (simp add: get_whois_def)

lemma analyze_variant_whois_step:
  assumes "(if check_dns cfg then fst (fst (DomainAnalyzer_check_dns rt (variant_domain v)))
            else is_registered v)"
    and "check_whois cfg"
  shows "\<exists>v1 calls1. is_registered v1 \<and> variant_domain v1 = variant_domain v \<and>
     domain_age_days v1 = domain_age_days v \<and> error v1 = error v \<and>
     analyze_variant rt cfg v =
       (case get_whois rt (variant_domain v) of
          ((cd, reg, data), calls2) \<Rightarrow>
            (let v2 = v1\<lparr>creation_date := cd, registrar := reg,
                         whois_data := map (\<lambda>(k, v). (k, py_str rt v))
                           (filter (\<lambda>(k, v). k \<in> set WHOIS_KEYS) data)\<rparr>
             in if truthy cd then
                  (case age_in_days (now rt) cd of
                     Inl e \<Rightarrow> (v2\<lparr>error := Some (str_exception e)\<rparr>, calls1 @ calls2)
                   | Inr days \<Rightarrow>
                       (set_trust cfg (v2\<lparr>domain_age_days := Some days\<rparr>),
                        calls1 @ calls2))
                else (set_trust cfg v2, calls1 @ calls2)))"
proof (cases "check_dns cfg")
  case True
  obtain reg1 records calls1
    where dns: "DomainAnalyzer_check_dns rt (variant_domain v) = ((reg1, records), calls1)"
    by (cases "DomainAnalyzer_check_dns rt (variant_domain v)") auto
  with assms(1) True have reg1 by simp
  let ?v1 = "v\<lparr>is_registered := True, dns_records := records\<rparr>"
  have "analyze_variant rt cfg v =
       (case get_whois rt (variant_domain v) of
          ((cd, reg, data), calls2) \<Rightarrow>
            (let v2 = ?v1\<lparr>creation_date := cd, registrar := reg,
                         whois_data := map (\<lambda>(k, v). (k, py_str rt v))
                           (filter (\<lambda>(k, v). k \<in> set WHOIS_KEYS) data)\<rparr>
             in if truthy cd then
                  (case age_in_days (now rt) cd of
                     Inl e \<Rightarrow> (v2\<lparr>error := Some (str_exception e)\<rparr>, calls1 @ calls2)
                   | Inr days \<Rightarrow>
                       (set_trust cfg (v2\<lparr>domain_age_days := Some days\<rparr>),
                        calls1 @ calls2))
                else (set_trust cfg v2, calls1 @ calls2)))"
    using True dns \<open>reg1\<close> assms(2) by (simp add: analyze_variant_def)
  then show ?thesis
    by (intro exI [of _ ?v1] exI [of _ calls1]) simp
next
  case False
  with assms(1) have reg: "is_registered v" by simp
  have "analyze_variant rt cfg v =
       (case get_whois rt (variant_domain v) of
          ((cd, reg, data), calls2) \<Rightarrow>
            (let v2 = v\<lparr>creation_date := cd, registrar := reg,
                         whois_data := map (\<lambda>(k, v). (k, py_str rt v))
                           (filter (\<lambda>(k, v). k \<in> set WHOIS_KEYS) data)\<rparr>
             in if truthy cd then
                  (case age_in_days (now rt) cd of
                     Inl e \<Rightarrow> (v2\<lparr>error := Some (str_exception e)\<rparr>, [] @ calls2)
                   | Inr days \<Rightarrow>
                       (set_trust cfg (v2\<lparr>domain_age_days := Some days\<rparr>),
                        [] @ calls2))
                else (set_trust cfg v2, [] @ calls2)))"
    using False reg assms(2) by (simp add: analyze_variant_def)
  with reg show ?thesis
    by (intro exI [of _ v] exI [of _ "[]"]) simp
qed

lemma set_trust_fields:
  "is_registered (set_trust cfg v) = is_registered v"
  "domain_age_days (set_trust cfg v) = domain_age_days v"
  "error (set_trust cfg v) = error v"
  "(trust_level (set_trust cfg v), risk_score (set_trust cfg v))
     = calculate_trust_level cfg (domain_age_days v)"
  by (simp_all add: set_trust_def split: prod.splits)

lemma floor_div_bounds:
  assumes "(0::int) < d"
  shows "x div d * d \<le> x \<and> x < (x div d + 1) * d"
proof -
  from assms have "0 \<le> x mod d" and "x mod d < d"
    by simp_all
  moreover have "x div d * d + x mod d = x"
    by simp
  moreover have "(x div d + 1) * d = x div d * d + d"
    by (simp add: algebra_simps)
  ultimately show ?thesis
    by linarith
qed

lemmas analyzer_eval = analyze_variant_def DomainAnalyzer_check_dns_def get_whois_def
  set_trust_def calculate_trust_level_def example_runtime_def offline_runtime_def
  new_AnalysisConfig_def new_DomainVariant_def microseconds_per_day_def WHOIS_KEYS_def S_def

subsection \<open>A WHOIS lookup that raises\<close>

text \<open>
  C7 (as amended). For a variant with no age recorded (as every generated variant),
  when the DNS step concludes \<open>registered = true\<close> and the WHOIS lookup raises,
  \<open>analyze_variant\<close> returns the variant with \<open>registered = true\<close>,
  \<open>trust_level = unknown\<close> and \<open>risk_score = 50\<close>; the exception is caught inside
  \<open>get_whois\<close> and the \<open>error\<close> field keeps the value it had (absent for a generated
  variant).
\<close>

theorem analyze_variant_whois_raises:
  assumes "check_dns cfg" and "check_whois cfg"
    and "fst (fst (DomainAnalyzer_check_dns rt (variant_domain v)))"
    and "whois_whois rt = Some whois"
    and "whois (variant_domain v) = WhoisException e"
    and "domain_age_days v = None"
  shows "is_registered (fst (analyze_variant rt cfg v)) \<and>
     trust_level (fst (analyze_variant rt cfg v)) = S ''unknown'' \<and>
     risk_score (fst (analyze_variant rt cfg v)) = 50 \<and>
     error (fst (analyze_variant rt cfg v)) = error v"
proof -
  from assms(1,3) have
    "(if check_dns cfg then fst (fst (DomainAnalyzer_check_dns rt (variant_domain v)))
      else is_registered v)"
    by simp
  from analyze_variant_whois_step [OF this assms(2)] obtain v1 calls1
    where v1: "is_registered v1" "domain_age_days v1 = domain_age_days v" "error v1 = error v"
      and run: "analyze_variant rt cfg v =
        (set_trust cfg (v1\<lparr>creation_date := PyNone, registrar := PyNone, whois_data := []\<rparr>),
         calls1 @ [WhoisQuery (variant_domain v)])"
    by (auto simp: get_whois_exception [OF assms(4,5)])
  from v1 assms(6) show ?thesis
    unfolding run by (simp add: set_trust_def calculate_trust_level_def)
qed

theorem analyze_variant_whois_raises_witness:
  "check_dns (new_AnalysisConfig (S ''ab.com'')) \<and>
   check_whois (new_AnalysisConfig (S ''ab.com'')) \<and>
   fst (fst (DomainAnalyzer_check_dns (example_runtime (WhoisException (S ''timed out'')) 0)
     (S ''cb.com''))) \<and>
   domain_age_days (new_DomainVariant (S ''ab.com'') (S ''cb.com'') (S ''bitsquatting'') []) = None \<and>
   is_registered (fst (analyze_variant (example_runtime (WhoisException (S ''timed out'')) 0)
     (new_AnalysisConfig (S ''ab.com''))
     (new_DomainVariant (S ''ab.com'') (S ''cb.com'') (S ''bitsquatting'') []))) \<and>
   trust_level (fst (analyze_variant (example_runtime (WhoisException (S ''timed out'')) 0)
     (new_AnalysisConfig (S ''ab.com''))
     (new_DomainVariant (S ''ab.com'') (S ''cb.com'') (S ''bitsquatting'') []))) = S ''unknown'' \<and>
   risk_score (fst (analyze_variant (example_runtime (WhoisException (S ''timed out'')) 0)
     (new_AnalysisConfig (S ''ab.com''))
     (new_DomainVariant (S ''ab.com'') (S ''cb.com'') (S ''bitsquatting'') []))) = 50"
proof -
  have dns: "fst (fst (DomainAnalyzer_check_dns (example_runtime (WhoisException (S ''timed out'')) 0)
     (S ''cb.com'')))"
    by (simp add: DomainAnalyzer_check_dns_def example_runtime_def offline_runtime_def S_def)
  have lib: "whois_whois (example_runtime (WhoisException (S ''timed out'')) 0)
     = Some (\<lambda>domain. WhoisException (S ''timed out''))"
    by (simp add: example_runtime_def offline_runtime_def)
  from analyze_variant_whois_raises [of "new_AnalysisConfig (S ''ab.com'')"
      "example_runtime (WhoisException (S ''timed out'')) 0"
      "new_DomainVariant (S ''ab.com'') (S ''cb.com'') (S ''bitsquatting'') []"
      "\<lambda>domain. WhoisException (S ''timed out'')" "S ''timed out''"]
    dns lib
  show ?thesis
    by (simp add: new_AnalysisConfig_def new_DomainVariant_def)
qed

text \<open>
  The claim as it is written fails on the \<open>error\<close> field: with a DNS answer and a
  WHOIS lookup that raises, the generated variant \<open>cb.com\<close> comes back registered,
  unknown, 50, and with no error.
\<close>

theorem analyze_variant_whois_raises_counterexample:
  "is_registered (fst (analyze_variant (example_runtime (WhoisException (S ''timed out'')) 0)
     (new_AnalysisConfig (S ''ab.com''))
     (new_DomainVariant (S ''ab.com'') (S ''cb.com'') (S ''bitsquatting'') []))) \<and>
   risk_score (fst (analyze_variant (example_runtime (WhoisException (S ''timed out'')) 0)
     (new_AnalysisConfig (S ''ab.com''))
     (new_DomainVariant (S ''ab.com'') (S ''cb.com'') (S ''bitsquatting'') []))) = 50 \<and>
   error (fst (analyze_variant (example_runtime (WhoisException (S ''timed out'')) 0)
     (new_AnalysisConfig (S ''ab.com''))
     (new_DomainVariant (S ''ab.com'') (S ''cb.com'') (S ''bitsquatting'') []))) = None \<and>
   snd (analyze_variant (example_runtime (WhoisException (S ''timed out'')) 0)
     (new_AnalysisConfig (S ''ab.com''))
     (new_DomainVariant (S ''ab.com'') (S ''cb.com'') (S ''bitsquatting'') []))
     = [DnsQuery (S ''cb.com'') (S ''A''), DnsQuery (S ''cb.com'') (S ''AAAA''),
        DnsQuery (S ''cb.com'') (S ''MX''), DnsQuery (S ''cb.com'') (S ''NS''),
        WhoisQuery (S ''cb.com'')]"
  by (simp add: analyzer_eval)

subsection \<open>The age in days\<close>

text \<open>
  C9 (as amended). When the variant is registered after the DNS step, WHOIS is
  enabled and \<open>get_whois\<close> yields a naive \<open>creation_date\<close>, then \<open>domain_age_days\<close>
  is the integer \<open>floor((now - creation_date) / 1 day)\<close>. It is negative exactly
  when \<open>creation_date\<close> is later than \<open>now\<close>: the age is an integer or absent, not
  always a non-negative one.
\<close>

theorem analyze_variant_age:
  assumes "(if check_dns cfg then fst (fst (DomainAnalyzer_check_dns rt (variant_domain v)))
            else is_registered v)"
    and "check_whois cfg"
    and "fst (fst (get_whois rt (variant_domain v))) = PyDatetime (Naive c)"
  shows "\<exists>age. domain_age_days (fst (analyze_variant rt cfg v)) = Some age \<and>
     age = (now rt - c) div microseconds_per_day \<and>
     age * microseconds_per_day \<le> now rt - c \<and>
     now rt - c < (age + 1) * microseconds_per_day \<and>
     (age < 0) = (now rt < c) \<and>
     is_registered (fst (analyze_variant rt cfg v)) \<and>
     (trust_level (fst (analyze_variant rt cfg v)), risk_score (fst (analyze_variant rt cfg v)))
       = calculate_trust_level cfg (Some age)"
proof -
  obtain reg data calls2
    where whois: "get_whois rt (variant_domain v) = ((PyDatetime (Naive c), reg, data), calls2)"
    using assms(3) by (cases "get_whois rt (variant_domain v)") auto
  let ?age = "(now rt - c) div microseconds_per_day"
  from analyze_variant_whois_step [OF assms(1,2)] obtain v1 calls1
    where v1: "is_registered v1"
      and run: "analyze_variant rt cfg v =
        (set_trust cfg (v1\<lparr>creation_date := PyDatetime (Naive c), registrar := reg,
           whois_data := map (\<lambda>(k, v). (k, py_str rt v))
             (filter (\<lambda>(k, v). k \<in> set WHOIS_KEYS) data),
           domain_age_days := Some ?age\<rparr>),
         calls1 @ calls2)"
    by (auto simp: whois)
  have day: "0 < microseconds_per_day"
    by (simp add: microseconds_per_day_def)
  from floor_div_bounds [OF day, of "now rt - c"]
  have lower: "?age * microseconds_per_day \<le> now rt - c"
    and upper: "now rt - c < (?age + 1) * microseconds_per_day"
    by simp_all
  have sign: "(?age < 0) = (now rt < c)"
    using day by (simp add: neg_imp_zdiv_neg_iff pos_imp_zdiv_neg_iff)
  from v1 lower upper sign show ?thesis
    unfolding run by (simp add: set_trust_fields set_trust_def split: prod.splits)
qed

text \<open>
  A domain created 45 days (3888000000000 microseconds) before \<open>now\<close>: the age
  is 45 and the bucket is (high_risk, 85).
\<close>

theorem analyze_variant_age_witness:
  "(if check_dns (new_AnalysisConfig (S ''ab.com''))
    then fst (fst (DomainAnalyzer_check_dns
      (example_runtime (WhoisEntry \<lparr>entry_items = [], entry_creation_date = PyDatetime (Naive 0),
         entry_registrar = PyNone\<rparr>) 3888000000000) (S ''cb.com'')))
    else is_registered (new_DomainVariant (S ''ab.com'') (S ''cb.com'') (S ''bitsquatting'') [])) \<and>
   check_whois (new_AnalysisConfig (S ''ab.com'')) \<and>
   fst (fst (get_whois
     (example_runtime (WhoisEntry \<lparr>entry_items = [], entry_creation_date = PyDatetime (Naive 0),
        entry_registrar = PyNone\<rparr>) 3888000000000) (S ''cb.com'')))
     = PyDatetime (Naive 0) \<and>
   domain_age_days (fst (analyze_variant
     (example_runtime (WhoisEntry \<lparr>entry_items = [], entry_creation_date = PyDatetime (Naive 0),
        entry_registrar = PyNone\<rparr>) 3888000000000)
     (new_AnalysisConfig (S ''ab.com''))
     (new_DomainVariant (S ''ab.com'') (S ''cb.com'') (S ''bitsquatting'') []))) = Some 45 \<and>
   (trust_level (fst (analyze_variant
     (example_runtime (WhoisEntry \<lparr>entry_items = [], entry_creation_date = PyDatetime (Naive 0),
        entry_registrar = PyNone\<rparr>) 3888000000000)
     (new_AnalysisConfig (S ''ab.com''))
     (new_DomainVariant (S ''ab.com'') (S ''cb.com'') (S ''bitsquatting'') []))),
    risk_score (fst (analyze_variant
     (example_runtime (WhoisEntry \<lparr>entry_items = [], entry_creation_date = PyDatetime (Naive 0),
        entry_registrar = PyNone\<rparr>) 3888000000000)
     (new_AnalysisConfig (S ''ab.com''))
     (new_DomainVariant (S ''ab.com'') (S ''cb.com'') (S ''bitsquatting'') []))))
     = (S ''high_risk'', 85)"
proof -
  let ?rt = "example_runtime (WhoisEntry \<lparr>entry_items = [],
    entry_creation_date = PyDatetime (Naive 0), entry_registrar = PyNone\<rparr>)
    3888000000000"
  let ?v = "new_DomainVariant (S ''ab.com'') (S ''cb.com'') (S ''bitsquatting'') []"
  have dns: "(if check_dns (new_AnalysisConfig (S ''ab.com''))
    then fst (fst (DomainAnalyzer_check_dns ?rt (S ''cb.com'')))
    else is_registered ?v)"
    by (simp add: DomainAnalyzer_check_dns_def example_runtime_def offline_runtime_def
        new_AnalysisConfig_def S_def)
  have enabled: "check_whois (new_AnalysisConfig (S ''ab.com''))"
    by (simp add: new_AnalysisConfig_def)
  have whois: "fst (fst (get_whois ?rt (S ''cb.com''))) = PyDatetime (Naive 0)"
    by (simp add: get_whois_def example_runtime_def offline_runtime_def)
  have clock: "now ?rt = 3888000000000"
    by (simp add: example_runtime_def offline_runtime_def)
  have bucket: "calculate_trust_level (new_AnalysisConfig (S ''ab.com'')) (Some 45)
     = (S ''high_risk'', 85)"
    by (simp add: calculate_trust_level_def)
  have dom: "variant_domain ?v = S ''cb.com''"
    by simp
  from analyze_variant_age [of "new_AnalysisConfig (S ''ab.com'')" ?rt ?v 0]
    dns enabled whois
  have "domain_age_days (fst (analyze_variant ?rt (new_AnalysisConfig (S ''ab.com'')) ?v))
      = Some 45 \<and>
    (trust_level (fst (analyze_variant ?rt (new_AnalysisConfig (S ''ab.com'')) ?v)),
     risk_score (fst (analyze_variant ?rt (new_AnalysisConfig (S ''ab.com'')) ?v)))
      = (S ''high_risk'', 85)"
    unfolding dom clock by (simp add: bucket microseconds_per_day_def)
  with dns enabled whois show ?thesis
    by (simp only: simp_thms)
qed

text \<open>
  The claim as it is written fails for a creation date in the future: a WHOIS record
  created one day after \<open>now\<close> gives the age \<open>-1\<close>, and with it the bucket
  (critical, 95).
\<close>

theorem analyze_variant_age_counterexample:
  "creation_date (fst (analyze_variant
     (example_runtime (WhoisEntry \<lparr>entry_items = [],
        entry_creation_date = PyDatetime (Naive 86400000000), entry_registrar = PyNone\<rparr>) 0)
     (new_AnalysisConfig (S ''ab.com''))
     (new_DomainVariant (S ''ab.com'') (S ''cb.com'') (S ''bitsquatting'') [])))
     = PyDatetime (Naive 86400000000) \<and>
   is_registered (fst (analyze_variant
     (example_runtime (WhoisEntry \<lparr>entry_items = [],
        entry_creation_date = PyDatetime (Naive 86400000000), entry_registrar = PyNone\<rparr>) 0)
     (new_AnalysisConfig (S ''ab.com''))
     (new_DomainVariant (S ''ab.com'') (S ''cb.com'') (S ''bitsquatting'') []))) \<and>
   domain_age_days (fst (analyze_variant
     (example_runtime (WhoisEntry \<lparr>entry_items = [],
        entry_creation_date = PyDatetime (Naive 86400000000), entry_registrar = PyNone\<rparr>) 0)
     (new_AnalysisConfig (S ''ab.com''))
     (new_DomainVariant (S ''ab.com'') (S ''cb.com'') (S ''bitsquatting'') [])))
     = Some (- 1) \<and>
   risk_score (fst (analyze_variant
     (example_runtime (WhoisEntry \<lparr>entry_items = [],
        entry_creation_date = PyDatetime (Naive 86400000000), entry_registrar = PyNone\<rparr>) 0)
     (new_AnalysisConfig (S ''ab.com''))
     (new_DomainVariant (S ''ab.com'') (S ''cb.com'') (S ''bitsquatting'') []))) = 95"
  by (simp add: analyzer_eval)

subsection \<open>Analysis without DNS\<close>

text \<open>
  C10 (as amended). For every variant whose \<open>registered\<close> flag is false when the
  analysis starts (the default of the data class, so every variant the generator
  returns): if \<open>check_dns\<close> is false, \<open>analyze_variant\<close> returns the variant with
  \<open>registered = false\<close>, \<open>trust_level = unregistered\<close> and \<open>risk_score = 0\<close>, and
  makes no call at all, so no WHOIS lookup, whatever \<open>check_whois\<close> is.
\<close>

theorem analyze_variant_no_dns:
  assumes "\<not> check_dns cfg" and "\<not> is_registered v"
  shows "\<not> is_registered (fst (analyze_variant rt cfg v)) \<and>
     trust_level (fst (analyze_variant rt cfg v)) = S ''unregistered'' \<and>
     risk_score (fst (analyze_variant rt cfg v)) = 0 \<and>
     snd (analyze_variant rt cfg v) = []"
  using assms by (simp add: analyze_variant_def)

text \<open>
  A generated variant, on a network where every lookup would succeed, with DNS
  switched off and WHOIS left on.
\<close>

theorem analyze_variant_no_dns_witness:
  "\<not> check_dns ((new_AnalysisConfig (S ''ab.com''))\<lparr>check_dns := False\<rparr>) \<and>
   check_whois ((new_AnalysisConfig (S ''ab.com''))\<lparr>check_dns := False\<rparr>) \<and>
   \<not> is_registered (new_DomainVariant (S ''ab.com'') (S ''cb.com'') (S ''bitsquatting'') []) \<and>
   \<not> is_registered (fst (analyze_variant
     (example_runtime (WhoisEntry \<lparr>entry_items = [], entry_creation_date = PyDatetime (Naive 0),
        entry_registrar = PyNone\<rparr>) 0)
     ((new_AnalysisConfig (S ''ab.com''))\<lparr>check_dns := False\<rparr>)
     (new_DomainVariant (S ''ab.com'') (S ''cb.com'') (S ''bitsquatting'') []))) \<and>
   trust_level (fst (analyze_variant
     (example_runtime (WhoisEntry \<lparr>entry_items = [], entry_creation_date = PyDatetime (Naive 0),
        entry_registrar = PyNone\<rparr>) 0)
     ((new_AnalysisConfig (S ''ab.com''))\<lparr>check_dns := False\<rparr>)
     (new_DomainVariant (S ''ab.com'') (S ''cb.com'') (S ''bitsquatting'') []))) = S ''unregistered'' \<and>
   risk_score (fst (analyze_variant
     (example_runtime (WhoisEntry \<lparr>entry_items = [], entry_creation_date = PyDatetime (Naive 0),
        entry_registrar = PyNone\<rparr>) 0)
     ((new_AnalysisConfig (S ''ab.com''))\<lparr>check_dns := False\<rparr>)
     (new_DomainVariant (S ''ab.com'') (S ''cb.com'') (S ''bitsquatting'') []))) = 0 \<and>
   snd (analyze_variant
     (example_runtime (WhoisEntry \<lparr>entry_items = [], entry_creation_date = PyDatetime (Naive 0),
        entry_registrar = PyNone\<rparr>) 0)
     ((new_AnalysisConfig (S ''ab.com''))\<lparr>check_dns := False\<rparr>)
     (new_DomainVariant (S ''ab.com'') (S ''cb.com'') (S ''bitsquatting'') [])) = []"
  using analyze_variant_no_dns [of "(new_AnalysisConfig (S ''ab.com''))\<lparr>check_dns := False\<rparr>"
      "new_DomainVariant (S ''ab.com'') (S ''cb.com'') (S ''bitsquatting'') []"
      "example_runtime (WhoisEntry \<lparr>entry_items = [], entry_creation_date = PyDatetime (Naive 0),
        entry_registrar = PyNone\<rparr>) 0"]
  by (simp add: new_AnalysisConfig_def new_DomainVariant_def)

text \<open>
  The claim as it is written fails for a variant that enters with its flag set:
  with DNS off the flag is not touched, so the WHOIS lookup is made and the variant
  comes back registered.
\<close>

theorem analyze_variant_no_dns_counterexample:
  "\<not> check_dns ((new_AnalysisConfig (S ''ab.com''))\<lparr>check_dns := False\<rparr>) \<and>
   is_registered (fst (analyze_variant
     (example_runtime (WhoisEntry \<lparr>entry_items = [], entry_creation_date = PyDatetime (Naive 0),
        entry_registrar = PyNone\<rparr>) 0)
     ((new_AnalysisConfig (S ''ab.com''))\<lparr>check_dns := False\<rparr>)
     ((new_DomainVariant (S ''ab.com'') (S ''cb.com'') (S ''bitsquatting'') [])
        \<lparr>is_registered := True\<rparr>))) \<and>
   snd (analyze_variant
     (example_runtime (WhoisEntry \<lparr>entry_items = [], entry_creation_date = PyDatetime (Naive 0),
        entry_registrar = PyNone\<rparr>) 0)
     ((new_AnalysisConfig (S ''ab.com''))\<lparr>check_dns := False\<rparr>)
     ((new_DomainVariant (S ''ab.com'') (S ''cb.com'') (S ''bitsquatting'') [])
        \<lparr>is_registered := True\<rparr>))
     = [WhoisQuery (S ''cb.com'')]"
  by (simp add: analyzer_eval)

section \<open>Order of the results\<close>

lemma py_sort_reverse_descending:
  "sorted_wrt (\<lambda>a b. key b \<le> key a) (py_sort_reverse key xs)"
proof -
  have "sorted (map key (sort_key key (rev xs)))"
    by (rule sorted_sort_key)
  then have "sorted_wrt (\<lambda>a b. key a \<le> key b) (sort_key key (rev xs))"
    by (simp only: sorted_wrt_map)
  then show ?thesis
    unfolding py_sort_reverse_def by (simp only: sorted_wrt_rev)
qed

lemma py_sort_reverse_stable:
  "filter (\<lambda>v. key v = k) (py_sort_reverse key xs) = filter (\<lambda>v. key v = k) xs"
  unfolding py_sort_reverse_def
  by (simp only: rev_filter [symmetric] sort_key_stable rev_rev_ident)

lemma py_sort_reverse_set: "set (py_sort_reverse key xs) = set xs"
  unfolding py_sort_reverse_def by simp

lemma py_sort_reverse_length: "length (py_sort_reverse key xs) = length xs"
  unfolding py_sort_reverse_def by simp

lemma format_console_descending:
  "sorted_wrt (\<lambda>a b. risk_score b \<le> risk_score a) (format_console cfg results)"
  unfolding format_console_def by (rule py_sort_reverse_descending)

text \<open>
  C6 (as amended). The list \<open>main\<close> hands to the writers holds the analyzed variants
  (the same elements, as many), sorted by descending \<open>risk_score\<close>; variants with
  equal \<open>risk_score\<close> keep the order in which the analyzer returned them. The
  \<open>variant_domain\<close> string plays no part in the order.
\<close>

theorem main_sort_descending_stable:
  "sorted_wrt (\<lambda>a b. risk_score b \<le> risk_score a) (main_sort results) \<and>
   filter (\<lambda>v. risk_score v = k) (main_sort results) = filter (\<lambda>v. risk_score v = k) results \<and>
   set (main_sort results) = set results \<and>
   length (main_sort results) = length results"
  unfolding main_sort_def
  by (simp only: py_sort_reverse_descending py_sort_reverse_stable py_sort_reverse_set
      py_sort_reverse_length simp_thms)

text \<open>
  The claim as it is written fails on ties: two variants with \<open>risk_score\<close> 50 that
  arrive as \<open>b.com\<close>, \<open>a.com\<close> leave in that order, although \<open>a.com\<close> is the
  smaller string.
\<close>

theorem main_sort_ties_counterexample:
  "map (\<lambda>v. (risk_score v, variant_domain v)) (main_sort
     [(new_DomainVariant (S ''x.com'') (S ''b.com'') (S ''typo'') [])\<lparr>risk_score := 50\<rparr>,
      (new_DomainVariant (S ''x.com'') (S ''a.com'') (S ''typo'') [])\<lparr>risk_score := 50\<rparr>])
   = [(50, S ''b.com''), (50, S ''a.com'')] \<and>
   str_less (S ''a.com'') (S ''b.com'')"
  by (simp add: main_sort_def py_sort_reverse_def new_DomainVariant_def S_def)


end
